theory Spec2Isabelle
  imports Complex_Main "HOL-Library.AList"
begin

section \<open>Strings of the two languages\<close>

text \<open>
  \<^verbatim>\<open>app.py\<close> is Python with a JavaScript listener embedded in it. A Python \<^verbatim>\<open>str\<close> is a
  sequence of Unicode code points, and \<^verbatim>\<open>len\<close>, \<^verbatim>\<open>strip\<close>, \<^verbatim>\<open>upper\<close> work on code points,
  so a string is modelled as the list of its code points. \<open>py ''Ctrl+C''\<close> is the
  string of an ASCII literal of the source.
\<close>

type_synonym ustr = "nat list"

definition py :: "string \<Rightarrow> ustr" where
  "py s = map of_char s"

text \<open>\<^verbatim>\<open>str.isspace\<close> of one code point; the regular expression class \<^verbatim>\<open>\s\<close> on \<^verbatim>\<open>str\<close> patterns
  is the same set.\<close>

definition is_space :: "nat \<Rightarrow> bool" where
  "is_space c \<longleftrightarrow>
     (9 \<le> c \<and> c \<le> 13) \<or> (28 \<le> c \<and> c \<le> 32) \<or> c = 133 \<or> c = 160 \<or> c = 5760 \<or>
     (8192 \<le> c \<and> c \<le> 8202) \<or> c = 8232 \<or> c = 8233 \<or> c = 8239 \<or> c = 8287 \<or> c = 12288"

text \<open>\<^verbatim>\<open>str.strip()\<close>: drop the white space at both ends.\<close>

definition strip :: "ustr \<Rightarrow> ustr" where
  "strip s = rev (dropWhile is_space (rev (dropWhile is_space s)))"

text \<open>
  Case mapping of one code point, as \<^verbatim>\<open>str.lower\<close>, \<^verbatim>\<open>str.upper\<close> and the title casing
  that \<^verbatim>\<open>str.capitalize\<close> gives its first character. The tables are those of Unicode for
  U+0000 to U+00FF (ASCII and Latin-1); code points above U+00FF are left as they are, so
  statements that depend on the case of such a code point are not made below.
\<close>

definition lower_cp :: "nat \<Rightarrow> ustr" where
  "lower_cp c =
     (if (65 \<le> c \<and> c \<le> 90) \<or> (192 \<le> c \<and> c \<le> 222 \<and> c \<noteq> 215) then [c + 32] else [c])"

definition upper_cp :: "nat \<Rightarrow> ustr" where
  "upper_cp c =
     (if (97 \<le> c \<and> c \<le> 122) \<or> (224 \<le> c \<and> c \<le> 254 \<and> c \<noteq> 247) then [c - 32]
      else if c = 223 then [83, 83]
      else if c = 181 then [924]
      else if c = 255 then [376]
      else [c])"

definition title_cp :: "nat \<Rightarrow> ustr" where
  "title_cp c = (if c = 223 then [83, 115] else upper_cp c)"

definition lower :: "ustr \<Rightarrow> ustr" where
  "lower s = concat (map lower_cp s)"

definition upper :: "ustr \<Rightarrow> ustr" where
  "upper s = concat (map upper_cp s)"

definition capitalize :: "ustr \<Rightarrow> ustr" where
  "capitalize s = (case s of [] \<Rightarrow> [] | c # cs \<Rightarrow> title_cp c @ lower cs)"

text \<open>\<^verbatim>\<open>"+".join(parts)\<close>.\<close>

fun join_plus :: "ustr list \<Rightarrow> ustr" where
  "join_plus [] = []"
| "join_plus [t] = t"
| "join_plus (t # ts) = t @ 43 # join_plus ts"

text \<open>\<^verbatim>\<open>str(n)\<close> of an integer, as the f-strings of the source format it.\<close>

fun dec :: "nat \<Rightarrow> ustr" where
  "dec n = (if n < 10 then [48 + n] else dec (n div 10) @ [48 + n mod 10])"

declare dec.simps [simp del]

definition str_int :: "int \<Rightarrow> ustr" where
  "str_int i = (if i < 0 then 45 # dec (nat (- i)) else dec (nat i))"

section \<open>Errors and indexing\<close>

datatype error = IndexError | TypeError

text \<open>\<^verbatim>\<open>xs[i]\<close>: the position a Python index denotes (negative indices count from the end),
  or \<^verbatim>\<open>IndexError\<close>.\<close>

definition py_pos :: "'a list \<Rightarrow> int \<Rightarrow> error + nat" where
  "py_pos xs i =
     (let n = int (length xs) in
      if 0 \<le> i \<and> i < n then Inr (nat i)
      else if - n \<le> i \<and> i < 0 then Inr (nat (n + i))
      else Inl IndexError)"

definition py_index :: "'a list \<Rightarrow> int \<Rightarrow> error + 'a" where
  "py_index xs i = (case py_pos xs i of Inl e \<Rightarrow> Inl e | Inr k \<Rightarrow> Inr (xs ! k))"

section \<open>Data model\<close>

record mission =
  phase :: ustr
  label :: ustr
  real_combo :: ustr
  safe_combo :: ustr
  keys :: "ustr list"
  mission_xp :: int
  task_type :: ustr

definition MISSIONS :: "mission list" where
  "MISSIONS =
    [\<lparr>phase = py ''Fase 1 - Texto'', label = py ''Copiar texto da origem'',
      real_combo = py ''Ctrl+C'', safe_combo = py ''Ctrl+C'', keys = [py ''Ctrl'', py ''C''],
      mission_xp = 10, task_type = py ''copy''\<rparr>,
     \<lparr>phase = py ''Fase 1 - Texto'', label = py ''Colar texto no destino'',
      real_combo = py ''Ctrl+V'', safe_combo = py ''Ctrl+V'', keys = [py ''Ctrl'', py ''V''],
      mission_xp = 10, task_type = py ''paste''\<rparr>,
     \<lparr>phase = py ''Fase 1 - Texto'', label = py ''Selecionar todo o texto no destino'',
      real_combo = py ''Ctrl+A'', safe_combo = py ''Ctrl+A'', keys = [py ''Ctrl'', py ''A''],
      mission_xp = 12, task_type = py ''select_all''\<rparr>,
     \<lparr>phase = py ''Fase 1 - Texto'', label = py ''Recortar texto selecionado no destino'',
      real_combo = py ''Ctrl+X'', safe_combo = py ''Ctrl+X'', keys = [py ''Ctrl'', py ''X''],
      mission_xp = 12, task_type = py ''cut''\<rparr>,
     \<lparr>phase = py ''Fase 1 - Texto'', label = py ''Desfazer recorte no destino'',
      real_combo = py ''Ctrl+Z'', safe_combo = py ''Ctrl+Z'', keys = [py ''Ctrl'', py ''Z''],
      mission_xp = 12, task_type = py ''undo''\<rparr>,
     \<lparr>phase = py ''Fase 1 - Texto'', label = py ''Colar sem formatacao'',
      real_combo = py ''Ctrl+Shift+V'', safe_combo = py ''Ctrl+Shift+V'',
      keys = [py ''Ctrl'', py ''Shift'', py ''V''],
      mission_xp = 14, task_type = py ''paste_plain''\<rparr>]"

text \<open>A player is one of the dictionaries that \<^verbatim>\<open>init_players\<close> builds; \<open>phase_hits\<close> is a
  dictionary, kept as an association list in insertion order. Times are seconds on the
  clock that \<^verbatim>\<open>datetime.now()\<close> reads.\<close>

type_synonym time = real

record player =
  player_id :: int
  xp :: int
  hits :: int
  attempts :: int
  errors :: int
  phase_hits :: "(ustr \<times> int) list"
  mission_times :: "real list"

datatype stage = Start | Game | End

text \<open>\<^verbatim>\<open>st.session_state\<close>, with the keys that \<^verbatim>\<open>init_state\<close> gives it.\<close>

record session_state =
  stage :: stage
  players_count :: int
  players :: "player list"
  current_player :: int
  mission_idx :: int
  total_xp :: int
  safe_mode :: bool
  game_started_at :: "time option"
  mission_started_at :: "time option"
  finish_reason :: ustr
  turma_grupo :: ustr
  alunos :: ustr
  feedback :: ustr
  teacher_cfg :: "(ustr \<times> ustr) list"
  clipboard_virtual :: ustr
  source_text :: ustr
  destination_text :: ustr
  editor_box :: ustr
  final_box :: ustr
  undo_stack :: "ustr list"
  sim_tabs :: int
  active_window :: ustr
  show_desktop :: bool
  locked_screen :: bool
  security_menu_open :: bool
  action_log :: ustr
  source_initial :: ustr
  undo_target :: ustr
  mission_ctx_idx :: int
  last_mission_idx :: int
  report_auto_sent :: bool
  report_auto_status :: ustr

definition DANGEROUS_COMBOS :: "ustr list" where
  "DANGEROUS_COMBOS =
     [py ''Ctrl+W'', py ''Ctrl+T'', py ''Ctrl+Shift+T'', py ''Ctrl+R'', py ''F5'', py ''Ctrl+N'',
      py ''Ctrl+L'', py ''Alt+F4'', py ''Alt+Tab'', py ''Win+L'']"

definition is_dangerous_combo :: "ustr \<Rightarrow> bool" where
  "is_dangerous_combo combo \<longleftrightarrow> combo \<in> set DANGEROUS_COMBOS"

definition init_players :: "int \<Rightarrow> player list" where
  "init_players count =
     map (\<lambda>idx. \<lparr>player_id = int idx + 1, xp = 0, hits = 0, attempts = 0, errors = 0,
                 phase_hits = [(py ''1'', 0), (py ''2'', 0), (py ''3'', 0), (py ''4'', 0), (py ''5'', 0)],
                 mission_times = []\<rparr>)
         [0 ..< nat count]"

definition expected_combo :: "mission \<Rightarrow> ustr" where
  "expected_combo m = real_combo m"

definition current_mission :: "session_state \<Rightarrow> error + mission" where
  "current_mission s = py_index MISSIONS (mission_idx s)"

section \<open>The simulated environment\<close>

definition init_simulation_env :: "session_state \<Rightarrow> session_state" where
  "init_simulation_env s =
     s\<lparr>clipboard_virtual := [],
       source_text := py ''Texto de treino: copie este paragrafo com Ctrl+C e cole no bloco de destino usando Ctrl+V.'',
       destination_text := [],
       undo_stack := [],
       sim_tabs := 1,
       active_window := py ''Editor'',
       show_desktop := False,
       locked_screen := False,
       security_menu_open := False,
       action_log := py ''Simulador iniciado.'',
       source_initial := py ''Texto base: pratique os comandos de edicao nesta atividade.'',
       undo_target := [],
       mission_ctx_idx := - 1,
       editor_box := [],
       final_box := []\<rparr>"

definition samples :: "ustr list" where
  "samples =
     [py ''A tecnologia move o mundo.'',
      py ''Aprender atalhos aumenta a produtividade.'',
      py ''Cada comando economiza segundos preciosos.'',
      py ''Praticar diariamente gera autonomia digital.'',
      py ''Copiar, colar e desfazer sao superpoderes basicos.'']"

text \<open>\<^verbatim>\<open>prepare_mission_context(mission, mission_idx)\<close> reads neither argument. The index
  \<^verbatim>\<open>current_player % len(samples)\<close> is never out of range: Python's \<^verbatim>\<open>%\<close> with a positive
  modulus is \<open>mod\<close> on \<open>int\<close>.\<close>

definition prepare_mission_context :: "mission \<Rightarrow> int \<Rightarrow> session_state \<Rightarrow> session_state" where
  "prepare_mission_context m midx s =
     (if mission_ctx_idx s = current_player s then s
      else
        let sample = samples ! nat (current_player s mod int (length samples)) in
        s\<lparr>source_text := sample,
          source_initial := sample,
          destination_text := [],
          editor_box := [],
          final_box := [],
          undo_target := [],
          action_log := py ''Contexto carregado para o Jogador '' @ str_int (current_player s + 1) @ py ''.'',
          mission_ctx_idx := current_player s\<rparr>)"

definition validate_mission_by_result ::
    "mission \<Rightarrow> ustr \<Rightarrow> ustr \<Rightarrow> ustr \<Rightarrow> session_state \<Rightarrow> bool \<times> ustr" where
  "validate_mission_by_result m source_value editor_value final_value s =
     (let src_now = strip source_value;
          editor_now = strip editor_value;
          final_now = strip final_value;
          src_initial = strip (source_initial s)
      in
      if task_type m = py ''copy'' then
        (src_now = src_initial, py ''Para validar, selecione na ORIGEM e pressione Ctrl+C.'')
      else if task_type m = py ''paste'' then
        (editor_now = src_initial,
         py ''Para validar, cole o texto da origem na CAIXA DE TRABALHO com Ctrl+V.'')
      else if task_type m = py ''select_all'' then
        (True, py ''Use Ctrl+A na caixa de trabalho e clique em validar.'')
      else if task_type m = py ''cut'' then
        (editor_now = [],
         py ''Para validar, use Ctrl+A e Ctrl+X na caixa de trabalho para esvaziar o texto.'')
      else if task_type m = py ''undo'' then
        (True, py ''Use Ctrl+Z na caixa de trabalho e clique em validar.'')
      else if task_type m = py ''paste_plain'' then
        (final_now = src_initial,
         py ''Para validar, copie da origem e cole sem formatacao na CAIXA FINAL com Ctrl+Shift+V.'')
      else (False, py ''Missao desconhecida.''))"

definition catch_all_plain :: "ustr list" where
  "catch_all_plain =
     [py ''Ctrl+L'', py ''Ctrl+R'', py ''F5'', py ''Ctrl+S'', py ''Ctrl+F'', py ''Ctrl+A'', py ''Ctrl+Y'',
      py ''Ctrl+Shift+V'']"

definition catch_all_window :: "ustr list" where
  "catch_all_window = [py ''Win+Right'', py ''Win+Left'', py ''Win+Up'', py ''Win+M'', py ''Ctrl+Esc'']"

definition catch_all_text :: "ustr list" where
  "catch_all_text =
     [py ''Ctrl+Right'', py ''Ctrl+Left'', py ''Ctrl+Shift+Right'', py ''Ctrl+Shift+Left'', py ''Home'',
      py ''End'']"

definition apply_simulation_effect :: "ustr \<Rightarrow> session_state \<Rightarrow> session_state" where
  "apply_simulation_effect combo s =
     (if combo = py ''Alt+Tab'' then
        let w = (if active_window s = py ''Editor'' then py ''Navegador'' else py ''Editor'') in
        s\<lparr>active_window := w, show_desktop := False,
          action_log := py ''Alt+Tab executado: foco trocado para '' @ w @ py ''.''\<rparr>
      else if combo = py ''Ctrl+T'' then
        s\<lparr>sim_tabs := sim_tabs s + 1,
          action_log := py ''Ctrl+T executado: nova aba virtual aberta ('' @ str_int (sim_tabs s + 1) @ py '').''\<rparr>
      else if combo = py ''Ctrl+W'' then
        s\<lparr>sim_tabs := max 1 (sim_tabs s - 1),
          action_log := py ''Ctrl+W executado: aba virtual fechada ('' @ str_int (max 1 (sim_tabs s - 1)) @ py '').''\<rparr>
      else if combo = py ''Win+D'' then
        s\<lparr>show_desktop := True, action_log := py ''Win+D executado: desktop virtual mostrado.''\<rparr>
      else if combo = py ''Win+L'' then
        s\<lparr>locked_screen := True, action_log := py ''Win+L executado: tela virtual bloqueada.''\<rparr>
      else if combo = py ''Ctrl+Alt+Del'' then
        s\<lparr>security_menu_open := True,
          action_log := py ''Ctrl+Alt+Del executado: menu de seguranca virtual aberto.''\<rparr>
      else if combo = py ''Win+E'' then
        s\<lparr>active_window := py ''Explorador'',
          action_log := py ''Win+E executado: explorador de arquivos virtual aberto.''\<rparr>
      else if combo = py ''Win+I'' then
        s\<lparr>active_window := py ''Configuracoes'',
          action_log := py ''Win+I executado: configuracoes virtuais abertas.''\<rparr>
      else if combo = py ''Ctrl+Shift+Esc'' then
        s\<lparr>active_window := py ''Gerenciador de Tarefas'',
          action_log := py ''Ctrl+Shift+Esc executado: gerenciador de tarefas virtual aberto.''\<rparr>
      else if combo = py ''Alt+F4'' then
        s\<lparr>active_window := py ''Editor'',
          action_log := py ''Alt+F4 executado: janela ativa virtual fechada.''\<rparr>
      else if combo = py ''Win+Shift+S'' then
        s\<lparr>action_log := py ''Win+Shift+S executado: captura de area virtual registrada.''\<rparr>
      else if combo = py ''Ctrl+Shift+T'' then
        s\<lparr>sim_tabs := sim_tabs s + 1,
          action_log := py ''Ctrl+Shift+T executado: aba virtual reaberta ('' @ str_int (sim_tabs s + 1) @ py '').''\<rparr>
      else if combo \<in> set catch_all_plain then
        s\<lparr>action_log := combo @ py '' executado no simulador.''\<rparr>
      else if combo \<in> set catch_all_window then
        s\<lparr>action_log := combo @ py '' executado: gerenciamento de janela/menu virtual atualizado.''\<rparr>
      else if combo \<in> set catch_all_text then
        s\<lparr>action_log := combo @ py '' executado: navegacao de texto virtual aplicada.''\<rparr>
      else s)"


section \<open>Mission success and turn rotation\<close>

text \<open>\<^verbatim>\<open>PHASE_REGEX.search(phase_text)\<close> for the pattern \<^verbatim>\<open>Fase\s+(\d)\<close>: the first position where
  \<^verbatim>\<open>Fase\<close>, at least one white space and a digit follow each other. White space and digits
  are disjoint, so the greedy \<^verbatim>\<open>\s+\<close> never has to give a character back. \<^verbatim>\<open>\d\<close> is taken
  as the ASCII digits, the only decimal digits up to U+00FF.\<close>

definition is_digit :: "nat \<Rightarrow> bool" where
  "is_digit c \<longleftrightarrow> 48 \<le> c \<and> c \<le> 57"

definition fase_here :: "ustr \<Rightarrow> ustr option" where
  "fase_here s =
     (if take 4 s = py ''Fase'' then
        let r = dropWhile is_space (drop 4 s) in
        if length r < length (drop 4 s) \<and> r \<noteq> [] \<and> is_digit (hd r) then Some [hd r] else None
      else None)"

fun search_fase :: "ustr \<Rightarrow> ustr option" where
  "search_fase [] = fase_here []"
| "search_fase (c # cs) = (case fase_here (c # cs) of Some d \<Rightarrow> Some d | None \<Rightarrow> search_fase cs)"

definition phase_number :: "ustr \<Rightarrow> ustr" where
  "phase_number phase_text = (case search_fase phase_text of Some d \<Rightarrow> d | None \<Rightarrow> py ''1'')"

definition advance_player_turn :: "session_state \<Rightarrow> session_state" where
  "advance_player_turn s =
     (if players_count s \<le> 1 then s
      else s\<lparr>current_player := (current_player s + 1) mod players_count s\<rparr>)"

definition finish_game :: "ustr \<Rightarrow> session_state \<Rightarrow> session_state" where
  "finish_game reason s = s\<lparr>stage := End, finish_reason := reason\<rparr>"

text \<open>The three lines that count a hit of phase \<open>ph\<close>: the key is created with 0 when it is
  missing, then incremented.\<close>

definition bump_phase_hits :: "ustr \<Rightarrow> (ustr \<times> int) list \<Rightarrow> (ustr \<times> int) list" where
  "bump_phase_hits ph d =
     (case map_of d ph of
        None \<Rightarrow> AList.update ph 1 d
      | Some n \<Rightarrow> AList.update ph (n + 1) d)"

text \<open>
  \<^verbatim>\<open>register_mission_success(player, mission)\<close>. The player is a dictionary that the caller
  holds by reference; the function reads and writes it and the session state, and never
  reaches the player through \<^verbatim>\<open>st.session_state.players\<close>. So the model takes the player and
  returns it updated, next to the new session state, and the caller stores it back. The two
  readings of the clock are the arguments \<open>now\<close> and \<open>now'\<close>. Subtracting from
  \<^verbatim>\<open>mission_started_at\<close> while it is still \<^verbatim>\<open>None\<close> raises \<^verbatim>\<open>TypeError\<close>.
\<close>

definition register_mission_success ::
    "player \<Rightarrow> mission \<Rightarrow> time \<Rightarrow> time \<Rightarrow> session_state \<Rightarrow> error + (player \<times> session_state)" where
  "register_mission_success p m now now' s =
     (case mission_started_at s of
        None \<Rightarrow> Inl TypeError
      | Some started \<Rightarrow>
          let p' = p\<lparr>hits := hits p + 1,
                     xp := xp p + mission_xp m,
                     mission_times := mission_times p @ [now - started],
                     phase_hits := bump_phase_hits (phase_number (phase m)) (phase_hits p)\<rparr>;
              s1 = s\<lparr>total_xp := total_xp s + mission_xp m\<rparr>;
              finished_player_list = (mission_idx s1 \<ge> int (length MISSIONS) - 1);
              s2 =
                (if finished_player_list then
                   (if players_count s1 > 1 \<and> current_player s1 < players_count s1 - 1 then
                      let next_player = current_player s1 + 1 in
                      s1\<lparr>current_player := next_player,
                         mission_idx := 0,
                         mission_ctx_idx := - 1,
                         last_mission_idx := - 1,
                         feedback := py ''Lista concluida pelo Jogador '' @ str_int (player_id p') @
                            py ''! TROCA DE PILOTO! Vez do Jogador '' @ str_int (next_player + 1) @ py ''.''\<rparr>
                    else
                      (finish_game
                         (py ''Todos os alunos da equipe conclu'' @ [237] @ py ''ram a lista de comandos.'') s1)
                        \<lparr>feedback := py ''Parabens! Atividade concluida por toda a equipe.''\<rparr>)
                 else
                   s1\<lparr>mission_idx := mission_idx s1 + 1,
                      feedback := py ''Acerto critico! Missao concluida.''\<rparr>)
          in Inr (p', s2\<lparr>mission_started_at := Some now'\<rparr>))"

section \<open>The pages\<close>

text \<open>The session state after \<^verbatim>\<open>init_state()\<close> on a new session.\<close>

definition init_state :: session_state where
  "init_state =
     \<lparr>stage = Start, players_count = 1, players = [], current_player = 0, mission_idx = 0,
      total_xp = 0, safe_mode = True, game_started_at = None, mission_started_at = None,
      finish_reason = [], turma_grupo = [], alunos = [], feedback = [], teacher_cfg = [],
      clipboard_virtual = [],
      source_text = py ''Texto de treino: copie este paragrafo com Ctrl+C e cole no bloco de destino usando Ctrl+V.'',
      destination_text = [], editor_box = [], final_box = [], undo_stack = [], sim_tabs = 1,
      active_window = py ''Editor'', show_desktop = False, locked_screen = False,
      security_menu_open = False, action_log = [], source_initial = [], undo_target = [],
      mission_ctx_idx = - 1, last_mission_idx = - 1, report_auto_sent = False,
      report_auto_status = []\<rparr>"

text \<open>\<^verbatim>\<open>render_start\<close>: what the run does to the session state. \<open>clicked\<close> says whether
  \<^verbatim>\<open>Iniciar Missao\<close> was pressed; the other arguments are the values of the widgets and the
  two readings of the clock.\<close>

definition render_start ::
    "bool \<Rightarrow> int \<Rightarrow> ustr \<Rightarrow> ustr \<Rightarrow> bool \<Rightarrow> time \<Rightarrow> time \<Rightarrow> session_state \<Rightarrow> session_state" where
  "render_start clicked count turma names safe now now' s =
     (if clicked then
        (init_simulation_env
           (s\<lparr>players_count := count,
              turma_grupo := strip turma,
              alunos := names,
              safe_mode := safe,
              players := init_players count,
              current_player := 0,
              mission_idx := 0,
              total_xp := 0,
              game_started_at := Some now,
              mission_started_at := Some now',
              feedback := [],
              report_auto_sent := False,
              report_auto_status := []\<rparr>))
          \<lparr>stage := Game\<rparr>
      else s)"

text \<open>\<^verbatim>\<open>render_simulation_panel\<close>: its effect on the session state and the triple it returns.
  A text area with a key shows and returns the session value of that key.\<close>

definition render_simulation_panel ::
    "mission \<Rightarrow> session_state \<Rightarrow> session_state \<times> (ustr \<times> ustr \<times> ustr)" where
  "render_simulation_panel m s =
     (let editor_value = editor_box s; final_value = final_box s in
      if strip (source_initial s) = [] then
        let source_value =
              py ''Texto de treino nao carregado. Clique em Jogar novamente para reiniciar a atividade.''
        in (s\<lparr>source_initial := source_value\<rparr>, (source_value, editor_value, final_value))
      else (s, (source_initial s, editor_value, final_value)))"

text \<open>The branch of \<^verbatim>\<open>render_game\<close> that runs when the validation button of the mission was
  pressed; \<open>k\<close> is the position of \<^verbatim>\<open>player\<close> in \<^verbatim>\<open>players\<close>.\<close>

definition store_player :: "nat \<Rightarrow> player \<times> session_state \<Rightarrow> session_state" where
  "store_player k ps = (snd ps)\<lparr>players := (players (snd ps))[k := fst ps]\<rparr>"

definition render_game_validate ::
    "mission \<Rightarrow> nat \<Rightarrow> ustr \<Rightarrow> time \<Rightarrow> time \<Rightarrow> session_state \<Rightarrow> error + session_state" where
  "render_game_validate m k expected now now' s =
     (let p1 = (players s ! k)\<lparr>attempts := attempts (players s ! k) + 1\<rparr>;
          s1 = s\<lparr>players := (players s)[k := p1]\<rparr>
      in
      if task_type m = py ''confirm'' then
        map_sum id (store_player k)
          (register_mission_success p1 m now now' (apply_simulation_effect expected s1))
      else if task_type m = py ''select_all'' then
        map_sum id (store_player k) (register_mission_success p1 m now now' s1)
      else if task_type m = py ''undo'' then
        map_sum id (store_player k) (register_mission_success p1 m now now' s1)
      else
        let (ok, hint) =
              validate_mission_by_result m (source_initial s1) (editor_box s1) (final_box s1) s1
        in
        if ok then map_sum id (store_player k) (register_mission_success p1 m now now' s1)
        else Inr (s1\<lparr>players := (players s1)[k := p1\<lparr>errors := errors p1 + 1\<rparr>],
                     feedback := py ''Ainda nao validou. '' @ hint\<rparr>))"

text \<open>\<^verbatim>\<open>render_game\<close>: one run of the page. \<open>clicked\<close> says whether the validation button was
  pressed. Reading the mission or the player out of range raises \<^verbatim>\<open>IndexError\<close>.\<close>

definition render_game :: "bool \<Rightarrow> time \<Rightarrow> time \<Rightarrow> session_state \<Rightarrow> error + session_state" where
  "render_game clicked now now' s =
     (let s0 = (if last_mission_idx s \<noteq> mission_idx s then s\<lparr>last_mission_idx := mission_idx s\<rparr> else s)
      in
      case current_mission s0 of
        Inl e \<Rightarrow> Inl e
      | Inr m \<Rightarrow>
          let s1 = prepare_mission_context m (mission_idx s0) s0;
              expected = expected_combo m
          in
          (case py_pos (players s1) (current_player s1) of
             Inl e \<Rightarrow> Inl e
           | Inr k \<Rightarrow>
               let s2 = fst (render_simulation_panel m s1) in
               if clicked then render_game_validate m k expected now now' s2 else Inr s2))"

text \<open>What the learner and the pages do to a running game: type into the two editable boxes,
  load the page again, press the validation button. \<^verbatim>\<open>main\<close> calls \<^verbatim>\<open>render_game\<close> only while
  the stage is \<^verbatim>\<open>game\<close>.\<close>

datatype event = Edit ustr ustr | Rerun time time | Validate time time

fun game_event :: "event \<Rightarrow> session_state \<Rightarrow> error + session_state" where
  "game_event (Edit e f) s = Inr (s\<lparr>editor_box := e, final_box := f\<rparr>)"
| "game_event (Rerun now now') s = (if stage s = Game then render_game False now now' s else Inr s)"
| "game_event (Validate now now') s = (if stage s = Game then render_game True now now' s else Inr s)"

fun game_events :: "event list \<Rightarrow> session_state \<Rightarrow> error + session_state" where
  "game_events [] s = Inr s"
| "game_events (ev # evs) s = (case game_event ev s of Inl e \<Rightarrow> Inl e | Inr s' \<Rightarrow> game_events evs s')"

text \<open>A run of mission successes: each is credited to the player whose turn it is, for the
  mission the index points at, as \<^verbatim>\<open>render_game\<close> calls \<^verbatim>\<open>register_mission_success\<close>.\<close>

definition success :: "time \<Rightarrow> time \<Rightarrow> session_state \<Rightarrow> error + session_state" where
  "success now now' s =
     (case current_mission s of
        Inl e \<Rightarrow> Inl e
      | Inr m \<Rightarrow>
          (case py_pos (players s) (current_player s) of
             Inl e \<Rightarrow> Inl e
           | Inr k \<Rightarrow> map_sum id (store_player k) (register_mission_success (players s ! k) m now now' s)))"

fun successes :: "(time \<times> time) list \<Rightarrow> session_state \<Rightarrow> error + session_state" where
  "successes [] s = Inr s"
| "successes (t # ts) s = (case success (fst t) (snd t) s of Inl e \<Rightarrow> Inl e | Inr s' \<Rightarrow> successes ts s')"

text \<open>The session state of a game in progress: as many players as \<^verbatim>\<open>players_count\<close> says,
  the turn and the mission index inside their lists, the mission clock started.\<close>

definition running :: "session_state \<Rightarrow> bool" where
  "running s \<longleftrightarrow>
     players_count s = int (length (players s)) \<and>
     0 \<le> current_player s \<and> current_player s < players_count s \<and>
     0 \<le> mission_idx s \<and> mission_idx s < int (length MISSIONS) \<and>
     mission_started_at s \<noteq> None"

section \<open>The shortcut guard in the browser\<close>

text \<open>
  \<^verbatim>\<open>inject_browser_shortcut_guard\<close> sends a script to the page. Its state is a handful of
  properties of the parent window; its inputs are key and click events. A JavaScript string
  is modelled like a Python one, as the list of its code units.
\<close>

record key_event =
  ctrlKey :: bool
  altKey :: bool
  shiftKey :: bool
  metaKey :: bool
  key :: ustr

definition keyMap :: "(ustr \<times> ustr) list" where
  "keyMap =
     [(py ''Control'', py ''Ctrl''), (py ''Alt'', py ''Alt''), (py ''Shift'', py ''Shift''),
      (py ''Meta'', py ''Win''), (py ''OS'', py ''Win''), (py ''Escape'', py ''Esc''),
      (py ''Esc'', py ''Esc''), (py ''Delete'', py ''Del''), (py ''Del'', py ''Del''),
      (py ''Tab'', py ''Tab''), (py ''ArrowRight'', py ''Right''), (py ''ArrowLeft'', py ''Left''),
      (py ''ArrowUp'', py ''Up''), (py ''ArrowDown'', py ''Down''), (py '' '', py ''Space'')]"

text \<open>\<^verbatim>\<open>normalizeCombo(e)\<close>. Every value of \<^verbatim>\<open>keyMap\<close> is a non-empty string, so
  \<^verbatim>\<open>keyMap[e.key] || e.key\<close> is the mapped value when the key is in the table and \<^verbatim>\<open>e.key\<close>
  otherwise (for an \<^verbatim>\<open>e.key\<close> that is not the name of a property every object inherits).\<close>

definition normalizeCombo :: "key_event \<Rightarrow> ustr" where
  "normalizeCombo e =
     (let parts = (if ctrlKey e then [py ''Ctrl''] else []) @ (if altKey e then [py ''Alt''] else []) @
                  (if shiftKey e then [py ''Shift''] else []) @ (if metaKey e then [py ''Win''] else []);
          k = (case map_of keyMap (key e) of Some v \<Rightarrow> v | None \<Rightarrow> key e)
      in
      if k \<notin> set [py ''Ctrl'', py ''Alt'', py ''Shift'', py ''Win''] then
        join_plus (parts @ [if length k = 1 then upper k else k])
      else join_plus parts)"

definition blocked :: "ustr list" where
  "blocked =
     [py ''Ctrl+W'', py ''Ctrl+T'', py ''Ctrl+Shift+T'', py ''Ctrl+R'', py ''Ctrl+N'', py ''Ctrl+L'',
      py ''F5'', py ''Ctrl+F4'', py ''Alt+F4'']"

definition isBlockedCombo :: "ustr \<Rightarrow> bool" where
  "isBlockedCombo combo \<longleftrightarrow> combo \<in> set blocked"

record guard =
  cyber_guard_installed :: bool
  cyber_combo_ok :: bool
  cyber_expected_combo :: ustr
  cyber_require_combo :: bool
  cyber_last_combo :: "ustr option"
  cyber_click_guard_bound :: bool

text \<open>A window in which the script has never run: every property is still undefined.\<close>

definition new_window :: guard where
  "new_window =
     \<lparr>cyber_guard_installed = False, cyber_combo_ok = False, cyber_expected_combo = [],
      cyber_require_combo = False, cyber_last_combo = None, cyber_click_guard_bound = False\<rparr>"

text \<open>The key-down listener. The boolean is true when the handler suppresses the event:
  \<^verbatim>\<open>preventDefault\<close>, \<^verbatim>\<open>stopPropagation\<close>, \<^verbatim>\<open>stopImmediatePropagation\<close>, \<^verbatim>\<open>return false\<close>.\<close>

definition cyber_guard_handler :: "key_event \<Rightarrow> guard \<Rightarrow> guard \<times> bool" where
  "cyber_guard_handler e g =
     (let combo = normalizeCombo e;
          g1 = g\<lparr>cyber_last_combo := Some combo\<rparr>;
          g2 = (if cyber_expected_combo g1 \<noteq> [] \<and> combo = cyber_expected_combo g1
                then g1\<lparr>cyber_combo_ok := True\<rparr> else g1)
      in (g2, isBlockedCombo combo))"

text \<open>\<^verbatim>\<open>String.prototype.trim\<close> removes the white space and line terminators of JavaScript.\<close>

definition js_space :: "nat \<Rightarrow> bool" where
  "js_space c \<longleftrightarrow>
     (9 \<le> c \<and> c \<le> 13) \<or> c = 32 \<or> c = 160 \<or> c = 5760 \<or> (8192 \<le> c \<and> c \<le> 8202) \<or>
     c = 8232 \<or> c = 8233 \<or> c = 8239 \<or> c = 8287 \<or> c = 12288 \<or> c = 65279"

definition trim :: "ustr \<Rightarrow> ustr" where
  "trim s = rev (dropWhile js_space (rev (dropWhile js_space s)))"

definition startsWith :: "ustr \<Rightarrow> ustr \<Rightarrow> bool" where
  "startsWith s p \<longleftrightarrow> take (length p) s = p"

text \<open>A click: \<open>button_text\<close> is \<^verbatim>\<open>None\<close> when the target has no enclosing button, and the
  \<^verbatim>\<open>innerText\<close> of that button otherwise.\<close>

record click_event =
  button_text :: "ustr option"

definition isValidateBtn :: "ustr \<Rightarrow> bool" where
  "isValidateBtn lbl \<longleftrightarrow>
     startsWith lbl (py ''Apertei '') \<or> startsWith lbl (py ''Validar comando protegido:'') \<or>
     startsWith lbl (py ''Validar licao'')"

text \<open>The click listener. The boolean is true when the click goes on to the page and false
  when the listener cancels it.\<close>

definition click_guard :: "click_event \<Rightarrow> guard \<Rightarrow> guard \<times> bool" where
  "click_guard e g =
     (if \<not> cyber_require_combo g then (g, True)
      else case button_text e of
        None \<Rightarrow> (g, True)
      | Some txt \<Rightarrow>
          if \<not> isValidateBtn (trim txt) then (g, True)
          else if \<not> cyber_combo_ok g then (g, False)
          else (g\<lparr>cyber_combo_ok := False\<rparr>, True))"

text \<open>The body of the script, run once for each \<^verbatim>\<open>inject_browser_shortcut_guard\<close>. The Python
  side escapes backslashes and quotes, so that the JavaScript literal denotes the string it
  was given.\<close>

definition inject_browser_shortcut_guard :: "ustr \<Rightarrow> bool \<Rightarrow> guard \<Rightarrow> guard" where
  "inject_browser_shortcut_guard expectedCombo requireCombo g =
     (let g1 = (if \<not> cyber_guard_installed g
                then g\<lparr>cyber_guard_installed := True, cyber_combo_ok := False,
                       cyber_expected_combo := [], cyber_require_combo := False\<rparr>
                else g);
          g2 = (if cyber_expected_combo g1 \<noteq> expectedCombo
                then g1\<lparr>cyber_expected_combo := expectedCombo, cyber_combo_ok := False\<rparr>
                else g1);
          g3 = g2\<lparr>cyber_require_combo := requireCombo\<rparr>
      in if \<not> cyber_click_guard_bound g3 then g3\<lparr>cyber_click_guard_bound := True\<rparr> else g3)"

text \<open>The events of the page in the order they happen. A listener answers only once the
  script has registered it.\<close>

datatype page_event = KeyDown key_event | Click click_event | Script ustr bool

fun on_page_event :: "page_event \<Rightarrow> guard \<Rightarrow> guard" where
  "on_page_event (KeyDown e) g = (if cyber_guard_installed g then fst (cyber_guard_handler e g) else g)"
| "on_page_event (Click e) g = (if cyber_click_guard_bound g then fst (click_guard e g) else g)"
| "on_page_event (Script expectedCombo requireCombo) g =
     inject_browser_shortcut_guard expectedCombo requireCombo g"

fun page_events :: "page_event list \<Rightarrow> guard \<Rightarrow> guard" where
  "page_events [] g = g"
| "page_events (ev # evs) g = page_events evs (on_page_event ev g)"

text \<open>A click on a button that the click listener takes for a validation button.\<close>

definition validation_click :: "click_event \<Rightarrow> bool" where
  "validation_click e \<longleftrightarrow> (case button_text e of None \<Rightarrow> False | Some txt \<Rightarrow> isValidateBtn (trim txt))"

text \<open>The test of the key-down listener: the key event is a capture of the expected combo.\<close>

definition captures :: "key_event \<Rightarrow> guard \<Rightarrow> bool" where
  "captures e g \<longleftrightarrow> cyber_expected_combo g \<noteq> [] \<and> normalizeCombo e = cyber_expected_combo g"

text \<open>A stretch of page events without a capture and without a validation click: keys that
  are not the expected combo, other clicks, and runs of the script that keep
  \<^verbatim>\<open>requireCombo\<close> true, as every run that \<^verbatim>\<open>render_game\<close> sends does.\<close>

fun no_capture :: "page_event list \<Rightarrow> guard \<Rightarrow> bool" where
  "no_capture [] g \<longleftrightarrow> True"
| "no_capture (KeyDown e # evs) g \<longleftrightarrow> \<not> captures e g \<and> no_capture evs (on_page_event (KeyDown e) g)"
| "no_capture (Click e # evs) g \<longleftrightarrow> \<not> validation_click e \<and> no_capture evs (on_page_event (Click e) g)"
| "no_capture (Script x r # evs) g \<longleftrightarrow> r \<and> no_capture evs (on_page_event (Script x r) g)"

section \<open>normalize_combo\<close>

text \<open>\<^verbatim>\<open>re.split(r"[+\s]+", text)\<close>: the pieces between the maximal runs of separators, the
  empty pieces at the two ends included. \<open>in_sep\<close> says that the previous character was a
  separator; \<open>cur\<close> is the piece being read, reversed.\<close>

definition is_sep :: "nat \<Rightarrow> bool" where
  "is_sep c \<longleftrightarrow> c = 43 \<or> is_space c"

fun split_from :: "bool \<Rightarrow> ustr \<Rightarrow> ustr \<Rightarrow> ustr list" where
  "split_from in_sep cur [] = [rev cur]"
| "split_from in_sep cur (c # cs) =
     (if is_sep c then (if in_sep then split_from True [] cs else rev cur # split_from True [] cs)
      else split_from False (c # cur) cs)"

definition re_split :: "ustr \<Rightarrow> ustr list" where
  "re_split text = split_from False [] text"

definition mapping :: "(ustr \<times> ustr) list" where
  "mapping =
     [(py ''control'', py ''Ctrl''), (py ''ctrl'', py ''Ctrl''), (py ''alt'', py ''Alt''),
      (py ''shift'', py ''Shift''), (py ''win'', py ''Win''), (py ''meta'', py ''Win''),
      (py ''del'', py ''Del''), (py ''delete'', py ''Del''), (py ''tab'', py ''Tab''),
      (py ''esc'', py ''Esc''), (py ''escape'', py ''Esc''), (py ''setadireita'', py ''Right''),
      (py ''direita'', py ''Right''), (py ''right'', py ''Right''), (py ''setaesquerda'', py ''Left''),
      (py ''esquerda'', py ''Left''), (py ''left'', py ''Left''), (py ''setacima'', py ''Up''),
      (py ''cima'', py ''Up''), (py ''up'', py ''Up''), (py ''setabaixo'', py ''Down''),
      (py ''baixo'', py ''Down''), (py ''down'', py ''Down''), (py ''inicio'', py ''Home''),
      (py ''home'', py ''Home''), (py ''fim'', py ''End''), (py ''end'', py ''End''),
      (py ''windows'', py ''Win'')]"

definition modifier_names :: "ustr list" where
  "modifier_names = [py ''Ctrl'', py ''Alt'', py ''Shift'', py ''Win'']"

definition norm_token :: "ustr \<Rightarrow> ustr" where
  "norm_token token =
     (case map_of mapping (lower token) of
        Some v \<Rightarrow> v
      | None \<Rightarrow> if length token = 1 then upper token else capitalize token)"

definition normalize_combo :: "ustr \<Rightarrow> ustr" where
  "normalize_combo text =
     (let raw = filter (\<lambda>token. token \<noteq> []) (re_split (strip text)) in
      if raw = [] then []
      else
        let norm = map norm_token raw;
            modifiers = filter (\<lambda>m. m \<in> set norm) modifier_names;
            rest = filter (\<lambda>k. k \<notin> set modifier_names) norm
        in join_plus (modifiers @ rest))"

section \<open>Facts about string literals\<close>

lemma py_eq_iff: "py a = py b \<longleftrightarrow> a = b"
  unfolding py_def by (simp add: inj_map_eq_map inj_of_char)

lemma py_Nil_iff: "py a = [] \<longleftrightarrow> a = []" "[] = py a \<longleftrightarrow> a = []"
  by (auto simp add: py_def)

section \<open>Effects of the catch-all combos\<close>

lemma effect_win_shift_s:
  "apply_simulation_effect (py ''Win+Shift+S'') s =
     s\<lparr>action_log := py ''Win+Shift+S'' @ py '' executado: captura de area virtual registrada.''\<rparr>"
  by (simp add: apply_simulation_effect_def py_eq_iff py_def)

lemma effect_catch_all_plain:
  "\<forall>combo \<in> set catch_all_plain.
     apply_simulation_effect combo s = s\<lparr>action_log := combo @ py '' executado no simulador.''\<rparr>"
  apply (simp only: catch_all_plain_def list.set ball_simps)
  apply (simp add: apply_simulation_effect_def py_eq_iff catch_all_plain_def)
  done

lemma effect_catch_all_window:
  "\<forall>combo \<in> set catch_all_window.
     apply_simulation_effect combo s =
       s\<lparr>action_log := combo @ py '' executado: gerenciamento de janela/menu virtual atualizado.''\<rparr>"
  apply (simp only: catch_all_window_def list.set ball_simps)
  apply (simp add: apply_simulation_effect_def py_eq_iff catch_all_plain_def catch_all_window_def)
  done

lemma effect_catch_all_text:
  "\<forall>combo \<in> set catch_all_text.
     apply_simulation_effect combo s =
       s\<lparr>action_log := combo @ py '' executado: navegacao de texto virtual aplicada.''\<rparr>"
  apply (simp only: catch_all_text_def list.set ball_simps)
  apply (simp add: apply_simulation_effect_def py_eq_iff catch_all_plain_def catch_all_window_def
      catch_all_text_def)
  done

lemma catch_all_nonempty:
  "[] \<notin> set (py ''Win+Shift+S'' # catch_all_plain @ catch_all_window @ catch_all_text)"
  by (simp add: catch_all_plain_def catch_all_window_def catch_all_text_def py_def)

text \<open>
  Claim C9. For each combo of the catch-all branches of \<^verbatim>\<open>apply_simulation_effect\<close>
  (\<^verbatim>\<open>Win+Shift+S\<close>, the plain set, the window-management set and the text-navigation set) the
  call returns the session state it was given with \<open>action_log\<close> alone overwritten, by a
  non-empty line that starts with the combo. Every other field (clipboard, buffers, tab
  count, active window, flags, undo stack) is the one of the state before.
\<close>

theorem apply_simulation_effect_catch_all:
  assumes "combo \<in> set (py ''Win+Shift+S'' # catch_all_plain @ catch_all_window @ catch_all_text)"
  shows "\<exists>line. line \<noteq> [] \<and> take (length combo) line = combo \<and>
           apply_simulation_effect combo s = s\<lparr>action_log := line\<rparr>"
proof -
  have ne: "combo \<noteq> []"
    using assms catch_all_nonempty by metis
  from assms consider "combo = py ''Win+Shift+S''" | "combo \<in> set catch_all_plain"
    | "combo \<in> set catch_all_window" | "combo \<in> set catch_all_text"
    by auto
  then obtain suffix where "apply_simulation_effect combo s = s\<lparr>action_log := combo @ suffix\<rparr>"
  proof cases
    case 1
    then show ?thesis using effect_win_shift_s that by blast
  next
    case 2
    then show ?thesis using effect_catch_all_plain that by blast
  next
    case 3
    then show ?thesis using effect_catch_all_window that by blast
  next
    case 4
    then show ?thesis using effect_catch_all_text that by blast
  qed
  with ne show ?thesis
    by (intro exI [of _ "combo @ suffix"]) simp
qed

theorem apply_simulation_effect_catch_all_witness:
  "py ''F5'' \<in> set (py ''Win+Shift+S'' # catch_all_plain @ catch_all_window @ catch_all_text) \<and>
   (\<exists>line. line \<noteq> [] \<and> take (length (py ''F5'')) line = py ''F5'' \<and>
      apply_simulation_effect (py ''F5'') init_state = init_state\<lparr>action_log := line\<rparr>)"
proof -
  have h: "py ''F5'' \<in> set (py ''Win+Shift+S'' # catch_all_plain @ catch_all_window @ catch_all_text)"
    by (simp add: catch_all_plain_def)
  show ?thesis
    using h apply_simulation_effect_catch_all [OF h, of init_state] by simp
qed

section \<open>The guard: suppressed combos and the one-shot flag\<close>

lemma handler_suppresses: "snd (cyber_guard_handler e g) = isBlockedCombo (normalizeCombo e)"
  by (simp add: cyber_guard_handler_def Let_def)

text \<open>
  Claim C3, as the code has it. The key-down listener suppresses an event exactly when its
  normalized combo is one of the nine combos of \<^verbatim>\<open>isBlockedCombo\<close>: \<^verbatim>\<open>Ctrl+W\<close>, \<^verbatim>\<open>Ctrl+T\<close>,
  \<^verbatim>\<open>Ctrl+Shift+T\<close>, \<^verbatim>\<open>Ctrl+R\<close>, \<^verbatim>\<open>Ctrl+N\<close>, \<^verbatim>\<open>Ctrl+L\<close>, \<^verbatim>\<open>F5\<close>, \<^verbatim>\<open>Ctrl+F4\<close>, \<^verbatim>\<open>Alt+F4\<close>. The state
  of the guard, and with it the armed mission combo, plays no part. This is not the set
  \<^verbatim>\<open>DANGEROUS_COMBOS\<close> of the Python side: \<^verbatim>\<open>Alt+Tab\<close> and \<^verbatim>\<open>Win+L\<close> are missing and \<^verbatim>\<open>Ctrl+F4\<close>
  is added.
\<close>

theorem guard_suppresses_blocked_only:
  "snd (cyber_guard_handler e g) \<longleftrightarrow>
     normalizeCombo e \<in> set [py ''Ctrl+W'', py ''Ctrl+T'', py ''Ctrl+Shift+T'', py ''Ctrl+R'', py ''Ctrl+N'',
                              py ''Ctrl+L'', py ''F5'', py ''Ctrl+F4'', py ''Alt+F4'']"
  unfolding handler_suppresses isBlockedCombo_def blocked_def ..

theorem guard_suppresses_blocked_only_witness:
  "snd (cyber_guard_handler \<lparr>ctrlKey = True, altKey = False, shiftKey = False, metaKey = False, key = py ''w''\<rparr>
          (inject_browser_shortcut_guard (py ''Ctrl+C'') True new_window))"
  unfolding guard_suppresses_blocked_only [of "\<lparr>ctrlKey = True, altKey = False, shiftKey = False, metaKey = False, key = py ''w''\<rparr>"
      "inject_browser_shortcut_guard (py ''Ctrl+C'') True new_window"]
  by (simp add: normalizeCombo_def keyMap_def py_def upper_def upper_cp_def)

text \<open>
  Claim C3 as stated fails: \<^verbatim>\<open>Alt+Tab\<close> is in the dangerous-combo set, and the listener lets
  it through.
\<close>

theorem guard_alt_tab_not_suppressed:
  "normalizeCombo \<lparr>ctrlKey = False, altKey = True, shiftKey = False, metaKey = False, key = py ''Tab''\<rparr>
     = py ''Alt+Tab'' \<and>
   py ''Alt+Tab'' \<in> set DANGEROUS_COMBOS \<and>
   \<not> snd (cyber_guard_handler
            \<lparr>ctrlKey = False, altKey = True, shiftKey = False, metaKey = False, key = py ''Tab''\<rparr>
            (inject_browser_shortcut_guard (py ''Ctrl+C'') True new_window))"
  by (simp add: cyber_guard_handler_def isBlockedCombo_def blocked_def DANGEROUS_COMBOS_def
      normalizeCombo_def keyMap_def py_def Let_def)

lemma no_capture_keeps:
  "\<not> cyber_combo_ok g \<Longrightarrow> cyber_require_combo g \<Longrightarrow> no_capture evs g \<Longrightarrow>
     \<not> cyber_combo_ok (page_events evs g) \<and> cyber_require_combo (page_events evs g)"
proof (induction evs arbitrary: g)
  case Nil
  then show ?case by simp
next
  case (Cons ev evs)
  have step: "\<not> cyber_combo_ok (on_page_event ev g) \<and> cyber_require_combo (on_page_event ev g)"
  proof (cases ev)
    case (KeyDown e)
    with Cons.prems show ?thesis
      by (auto simp add: cyber_guard_handler_def captures_def Let_def)
  next
    case (Click e)
    with Cons.prems show ?thesis
      by (simp add: click_guard_def validation_click_def split: option.splits)
  next
    case (Script x r)
    with Cons.prems show ?thesis
      by (simp add: inject_browser_shortcut_guard_def Let_def)
  qed
  moreover have "no_capture evs (on_page_event ev g)"
    using Cons.prems(3) by (cases ev) auto
  ultimately show ?case
    using Cons.IH [of "on_page_event ev g"] by simp
qed

text \<open>
  Claim C5. While \<^verbatim>\<open>requireCombo\<close> is true, a validation click that the click listener lets
  through leaves \<^verbatim>\<open>__cyber_combo_ok\<close> false; and after any stretch of page events without a
  capture of the expected combo, the next validation click is cancelled. One capture never
  serves two validation clicks.
\<close>

theorem guard_one_shot:
  assumes "cyber_require_combo g" and "validation_click c" and "snd (click_guard c g)"
    and "no_capture evs (fst (click_guard c g))" and "validation_click c'"
  shows "\<not> cyber_combo_ok (fst (click_guard c g)) \<and>
         \<not> snd (click_guard c' (page_events evs (fst (click_guard c g))))"
proof -
  let ?g = "fst (click_guard c g)"
  from assms(1-3) have off: "\<not> cyber_combo_ok ?g" and req: "cyber_require_combo ?g"
    by (auto simp add: click_guard_def validation_click_def split: option.splits if_splits)
  define g' where "g' = page_events evs ?g"
  from no_capture_keeps [OF off req assms(4)]
  have "\<not> cyber_combo_ok g'" and "cyber_require_combo g'"
    by (simp_all add: g'_def)
  with assms(5) have "\<not> snd (click_guard c' g')"
    by (auto simp add: click_guard_def validation_click_def split: option.splits)
  with off show ?thesis by (simp add: g'_def)
qed

text \<open>The other direction: a capture in between lets the next validation click through.\<close>

lemma capture_allows_click:
  assumes "cyber_guard_installed g" and "cyber_require_combo g" and "captures e g" and "validation_click c"
  shows "snd (click_guard c (on_page_event (KeyDown e) g))"
  using assms
  by (simp add: click_guard_def validation_click_def captures_def cyber_guard_handler_def Let_def
      split: option.splits)


theorem guard_one_shot_witness:
  "cyber_require_combo
     (page_events [Script (py ''Ctrl+C'') True,
        KeyDown \<lparr>ctrlKey = True, altKey = False, shiftKey = False, metaKey = False, key = py ''c''\<rparr>]
        new_window) \<and>
   validation_click \<lparr>button_text = Some (py ''Validar licao'')\<rparr> \<and>
   snd (click_guard \<lparr>button_text = Some (py ''Validar licao'')\<rparr>
     (page_events [Script (py ''Ctrl+C'') True,
        KeyDown \<lparr>ctrlKey = True, altKey = False, shiftKey = False, metaKey = False, key = py ''c''\<rparr>]
        new_window)) \<and>
   \<not> snd (click_guard \<lparr>button_text = Some (py ''Validar licao'')\<rparr>
     (page_events
        [KeyDown \<lparr>ctrlKey = True, altKey = False, shiftKey = False, metaKey = False, key = py ''v''\<rparr>,
         Script (py ''Ctrl+C'') True]
        (fst (click_guard \<lparr>button_text = Some (py ''Validar licao'')\<rparr>
           (page_events [Script (py ''Ctrl+C'') True,
              KeyDown \<lparr>ctrlKey = True, altKey = False, shiftKey = False, metaKey = False, key = py ''c''\<rparr>]
              new_window)))))"
proof -
  let ?g = "page_events [Script (py ''Ctrl+C'') True,
        KeyDown \<lparr>ctrlKey = True, altKey = False, shiftKey = False, metaKey = False, key = py ''c''\<rparr>]
        new_window"
  let ?c = "\<lparr>button_text = Some (py ''Validar licao'')\<rparr>"
  let ?evs = "[KeyDown \<lparr>ctrlKey = True, altKey = False, shiftKey = False, metaKey = False, key = py ''v''\<rparr>,
         Script (py ''Ctrl+C'') True]"
  have n1: "normalizeCombo \<lparr>ctrlKey = True, altKey = False, shiftKey = False, metaKey = False, key = py ''c''\<rparr>
      = py ''Ctrl+C''"
    by (simp add: normalizeCombo_def keyMap_def py_def upper_def upper_cp_def)
  have n2: "normalizeCombo \<lparr>ctrlKey = True, altKey = False, shiftKey = False, metaKey = False, key = py ''v''\<rparr>
      = py ''Ctrl+V''"
    by (simp add: normalizeCombo_def keyMap_def py_def upper_def upper_cp_def)
  have g: "?g = \<lparr>cyber_guard_installed = True, cyber_combo_ok = True, cyber_expected_combo = py ''Ctrl+C'',
      cyber_require_combo = True, cyber_last_combo = Some (py ''Ctrl+C''), cyber_click_guard_bound = True\<rparr>"
    by (simp add: inject_browser_shortcut_guard_def new_window_def cyber_guard_handler_def n1 Let_def py_eq_iff py_Nil_iff)
  have h2: "validation_click ?c"
    by (simp add: validation_click_def isValidateBtn_def startsWith_def trim_def js_space_def py_def)
  have h1: "cyber_require_combo ?g" unfolding g by simp
  have h3: "snd (click_guard ?c ?g)"
    using h2 unfolding g by (simp add: click_guard_def validation_click_def)
  have g': "fst (click_guard ?c ?g) = \<lparr>cyber_guard_installed = True, cyber_combo_ok = False,
      cyber_expected_combo = py ''Ctrl+C'', cyber_require_combo = True,
      cyber_last_combo = Some (py ''Ctrl+C''), cyber_click_guard_bound = True\<rparr>"
    using h2 unfolding g by (simp add: click_guard_def validation_click_def)
  have h4: "no_capture ?evs (fst (click_guard ?c ?g))"
    unfolding g' by (simp add: captures_def n2 py_eq_iff py_Nil_iff inject_browser_shortcut_guard_def cyber_guard_handler_def Let_def)
  from guard_one_shot [OF h1 h2 h3 h4 h2] h1 h2 h3 show ?thesis by blast
qed

section \<open>The mission context of a player\<close>

lemma length_samples: "length samples = 5"
  by (simp add: samples_def)

lemma prepare_mission_context_idem:
  "prepare_mission_context m i (prepare_mission_context m i s) = prepare_mission_context m i s"
  by (simp add: prepare_mission_context_def Let_def)

text \<open>
  Claim C4, as the code has it. When the context is not yet the current player's,
  \<^verbatim>\<open>prepare_mission_context\<close> takes the snapshot from the sample pool at the index
  \<^verbatim>\<open>current_player\<close> modulo 5, where \<^verbatim>\<open>current_player\<close> is the position of the player in the
  list, counted from 0: one less than the player's \<^verbatim>\<open>id\<close>. When the context is already the
  current player's the call changes nothing, so a second call changes nothing. The sample
  \<^verbatim>\<open>Aprender atalhos aumenta a produtividade.\<close> is that of position 1, the player with id 2;
  position 0, the player with id 1, gets \<^verbatim>\<open>A tecnologia move o mundo.\<close>
\<close>

theorem prepare_mission_context_sample:
  "(mission_ctx_idx s \<noteq> current_player s \<longrightarrow>
      source_initial (prepare_mission_context m i s) = samples ! nat (current_player s mod 5)) \<and>
   (mission_ctx_idx s = current_player s \<longrightarrow> prepare_mission_context m i s = s) \<and>
   prepare_mission_context m i (prepare_mission_context m i s) = prepare_mission_context m i s \<and>
   (mission_ctx_idx s \<noteq> current_player s \<and> current_player s = 1 \<longrightarrow>
      source_initial (prepare_mission_context m i s) = py ''Aprender atalhos aumenta a produtividade.'') \<and>
   (mission_ctx_idx s \<noteq> current_player s \<and> current_player s = 0 \<longrightarrow>
      source_initial (prepare_mission_context m i s) = py ''A tecnologia move o mundo.'')"
proof -
  have a: "mission_ctx_idx s \<noteq> current_player s \<Longrightarrow>
      source_initial (prepare_mission_context m i s) = samples ! nat (current_player s mod 5)"
    by (simp add: prepare_mission_context_def Let_def length_samples)
  have b: "mission_ctx_idx s = current_player s \<Longrightarrow> prepare_mission_context m i s = s"
    by (simp add: prepare_mission_context_def)
  have c: "samples ! nat (1 mod 5) = py ''Aprender atalhos aumenta a produtividade.''"
    by (simp add: samples_def)
  have d: "samples ! nat (0 mod 5) = py ''A tecnologia move o mundo.''"
    by (simp add: samples_def)
  show ?thesis
    using a b c d prepare_mission_context_idem [of m i s] by auto
qed

theorem prepare_mission_context_sample_witness:
  "mission_ctx_idx ((render_start True 2 [] [] True 0 0 init_state)\<lparr>current_player := 1\<rparr>) \<noteq> 1 \<and>
   player_id (players (render_start True 2 [] [] True 0 0 init_state) ! 1) = 2 \<and>
   source_initial (prepare_mission_context (MISSIONS ! 0) 0
      ((render_start True 2 [] [] True 0 0 init_state)\<lparr>current_player := 1\<rparr>))
     = py ''Aprender atalhos aumenta a produtividade.''"
proof -
  let ?s = "(render_start True 2 [] [] True 0 0 init_state)\<lparr>current_player := 1\<rparr>"
  have h: "mission_ctx_idx ?s \<noteq> current_player ?s \<and> current_player ?s = 1"
    by (simp add: render_start_def init_simulation_env_def)
  have p: "player_id (players (render_start True 2 [] [] True 0 0 init_state) ! 1) = 2"
    by (simp add: render_start_def init_simulation_env_def init_players_def upt_rec)
  have h': "mission_ctx_idx ?s \<noteq> 1"
    by (simp add: render_start_def init_simulation_env_def)
  from prepare_mission_context_sample [of ?s "MISSIONS ! 0" 0] h
  have "source_initial (prepare_mission_context (MISSIONS ! 0) 0 ?s)
      = py ''Aprender atalhos aumenta a produtividade.''"
    by blast
  with h' p show ?thesis by blast
qed

text \<open>
  Claim C4 as stated fails: in a new game the current player has id 1, and the snapshot is
  the first sample of the pool, not the second.
\<close>

theorem prepare_mission_context_player_one:
  "current_player (render_start True 1 [] [] True 0 0 init_state) = 0 \<and>
   player_id (players (render_start True 1 [] [] True 0 0 init_state) ! 0) = 1 \<and>
   source_initial (prepare_mission_context (MISSIONS ! 0) 0 (render_start True 1 [] [] True 0 0 init_state))
     = py ''A tecnologia move o mundo.'' \<and>
   source_initial (prepare_mission_context (MISSIONS ! 0) 0 (render_start True 1 [] [] True 0 0 init_state))
     \<noteq> py ''Aprender atalhos aumenta a produtividade.''"
  by (simp add: render_start_def init_simulation_env_def init_players_def prepare_mission_context_def
      samples_def py_eq_iff Let_def)

section \<open>Mission success: progression, turn rotation, bounds\<close>

lemma length_MISSIONS: "length MISSIONS = 6"
  by (simp add: MISSIONS_def)

lemma register_fields:
  assumes "mission_started_at s = Some t0"
  shows "\<exists>p' s'. register_mission_success p m now now' s = Inr (p', s') \<and>
           hits p' = hits p + 1 \<and> attempts p' = attempts p \<and> errors p' = errors p \<and>
           xp p' = xp p + mission_xp m \<and> player_id p' = player_id p \<and>
           players s' = players s \<and> players_count s' = players_count s \<and>
           mission_started_at s' = Some now' \<and> total_xp s' = total_xp s + mission_xp m \<and>
           (mission_idx s < 5 \<longrightarrow>
              mission_idx s' = mission_idx s + 1 \<and> current_player s' = current_player s \<and>
              stage s' = stage s \<and> mission_ctx_idx s' = mission_ctx_idx s) \<and>
           (5 \<le> mission_idx s \<and> 1 < players_count s \<and> current_player s < players_count s - 1 \<longrightarrow>
              current_player s' = current_player s + 1 \<and> mission_idx s' = 0 \<and>
              mission_ctx_idx s' = - 1 \<and> last_mission_idx s' = - 1 \<and> stage s' = stage s) \<and>
           (5 \<le> mission_idx s \<and> \<not> (1 < players_count s \<and> current_player s < players_count s - 1) \<longrightarrow>
              stage s' = End \<and> current_player s' = current_player s \<and>
              mission_idx s' = mission_idx s \<and> mission_ctx_idx s' = mission_ctx_idx s)"
  using assms
  by (simp add: register_mission_success_def Let_def length_MISSIONS finish_game_def)

lemma store_player_fields:
  "players_count (store_player k (p, s)) = players_count s"
  "length (players (store_player k (p, s))) = length (players s)"
  "current_player (store_player k (p, s)) = current_player s"
  "mission_idx (store_player k (p, s)) = mission_idx s"
  "mission_ctx_idx (store_player k (p, s)) = mission_ctx_idx s"
  "stage (store_player k (p, s)) = stage s"
  "mission_started_at (store_player k (p, s)) = mission_started_at s"
  "players (store_player k (p, s)) = (players s)[k := p]"
  by (simp_all add: store_player_def)

lemma success_fields:
  assumes "running s"
  shows "\<exists>s'. success now now' s = Inr s' \<and>
           players_count s' = players_count s \<and> length (players s') = length (players s) \<and>
           mission_started_at s' = Some now' \<and>
           (mission_idx s < 5 \<longrightarrow>
              mission_idx s' = mission_idx s + 1 \<and> current_player s' = current_player s \<and>
              stage s' = stage s) \<and>
           (mission_idx s = 5 \<and> current_player s < players_count s - 1 \<longrightarrow>
              current_player s' = current_player s + 1 \<and> mission_idx s' = 0 \<and> stage s' = stage s) \<and>
           (mission_idx s = 5 \<and> current_player s = players_count s - 1 \<longrightarrow>
              stage s' = End \<and> current_player s' = current_player s \<and> mission_idx s' = mission_idx s)"
proof -
  from assms obtain t0 where t0: "mission_started_at s = Some t0"
    by (auto simp add: running_def)
  from assms have cm: "current_mission s = Inr (MISSIONS ! nat (mission_idx s))"
    by (simp add: running_def current_mission_def py_index_def py_pos_def)
  from assms have pp: "py_pos (players s) (current_player s) = Inr (nat (current_player s))"
    by (simp add: running_def py_pos_def)
  from register_fields [OF t0, of "players s ! nat (current_player s)" "MISSIONS ! nat (mission_idx s)" now now']
  obtain p' s' where r: "register_mission_success (players s ! nat (current_player s))
        (MISSIONS ! nat (mission_idx s)) now now' s = Inr (p', s')"
    and f: "players s' = players s" "players_count s' = players_count s" "mission_started_at s' = Some now'"
      "mission_idx s < 5 \<longrightarrow>
              mission_idx s' = mission_idx s + 1 \<and> current_player s' = current_player s \<and>
              stage s' = stage s \<and> mission_ctx_idx s' = mission_ctx_idx s"
      "5 \<le> mission_idx s \<and> 1 < players_count s \<and> current_player s < players_count s - 1 \<longrightarrow>
              current_player s' = current_player s + 1 \<and> mission_idx s' = 0 \<and>
              mission_ctx_idx s' = - 1 \<and> last_mission_idx s' = - 1 \<and> stage s' = stage s"
      "5 \<le> mission_idx s \<and> \<not> (1 < players_count s \<and> current_player s < players_count s - 1) \<longrightarrow>
              stage s' = End \<and> current_player s' = current_player s \<and>
              mission_idx s' = mission_idx s \<and> mission_ctx_idx s' = mission_ctx_idx s"
    by blast
  have s: "success now now' s = Inr (store_player (nat (current_player s)) (p', s'))"
    by (simp add: success_def cm pp r)
  from assms have "0 \<le> current_player s" "current_player s < players_count s"
    by (simp_all add: running_def)
  with f show ?thesis
    unfolding s by (auto simp add: store_player_fields)
qed


lemma successes_append:
  "successes (ts @ us) s = (case successes ts s of Inl e \<Rightarrow> Inl e | Inr s' \<Rightarrow> successes us s')"
  by (induction ts arbitrary: s) (simp_all split: sum.splits)

lemma successes_position:
  assumes "running s" and "stage s = Game"
    and "6 * nat (current_player s) + nat (mission_idx s) + length ts < 6 * length (players s)"
  shows "\<exists>s'. successes ts s = Inr s' \<and> running s' \<and> stage s' = Game \<and>
           length (players s') = length (players s) \<and>
           6 * nat (current_player s') + nat (mission_idx s') =
             6 * nat (current_player s) + nat (mission_idx s) + length ts"
  using assms
proof (induction ts arbitrary: s)
  case Nil
  then show ?case by simp
next
  case (Cons t ts)
  from success_fields [OF Cons.prems(1), of "fst t" "snd t"]
  obtain s1 where s1: "success (fst t) (snd t) s = Inr s1"
    and f: "players_count s1 = players_count s" "length (players s1) = length (players s)"
      "mission_started_at s1 = Some (snd t)"
      "mission_idx s < 5 \<longrightarrow>
         mission_idx s1 = mission_idx s + 1 \<and> current_player s1 = current_player s \<and> stage s1 = stage s"
      "mission_idx s = 5 \<and> current_player s < players_count s - 1 \<longrightarrow>
         current_player s1 = current_player s + 1 \<and> mission_idx s1 = 0 \<and> stage s1 = stage s"
    by blast
  from Cons.prems(1) have r: "players_count s = int (length (players s))" "0 \<le> current_player s"
    "current_player s < players_count s" "0 \<le> mission_idx s" "mission_idx s < 6"
    by (simp_all add: running_def length_MISSIONS)
  have "running s1 \<and> stage s1 = Game \<and>
      6 * nat (current_player s1) + nat (mission_idx s1) =
        6 * nat (current_player s) + nat (mission_idx s) + 1"
  proof (cases "mission_idx s < 5")
    case True
    with f r Cons.prems(2) show ?thesis
      by (simp add: running_def length_MISSIONS nat_add_distrib)
  next
    case False
    with r have five: "mission_idx s = 5" by simp
    with Cons.prems(3) r have "current_player s < players_count s - 1"
      by simp
    with five f r Cons.prems(2) show ?thesis
      by (simp add: running_def length_MISSIONS nat_add_distrib)
  qed
  moreover from this Cons.prems(3) f
  have "6 * nat (current_player s1) + nat (mission_idx s1) + length ts < 6 * length (players s1)"
    by simp
  ultimately obtain s' where "successes ts s1 = Inr s'" "running s'" "stage s' = Game"
    "length (players s') = length (players s1)"
    "6 * nat (current_player s') + nat (mission_idx s') =
       6 * nat (current_player s1) + nat (mission_idx s1) + length ts"
    using Cons.IH [of s1] by blast
  with s1 f \<open>running s1 \<and> stage s1 = Game \<and> _\<close> show ?case
    by simp
qed

lemma length_init_players: "length (init_players count) = nat count"
  by (simp add: init_players_def)

lemma render_start_fields:
  "players (render_start True count turma names safe now now' s) = init_players count"
  "players_count (render_start True count turma names safe now now' s) = count"
  "current_player (render_start True count turma names safe now now' s) = 0"
  "mission_idx (render_start True count turma names safe now now' s) = 0"
  "mission_started_at (render_start True count turma names safe now now' s) = Some now'"
  "stage (render_start True count turma names safe now now' s) = Game"
  "mission_ctx_idx (render_start True count turma names safe now now' s) = - 1"
  by (simp_all add: render_start_def init_simulation_env_def)

lemma render_start_running:
  "1 \<le> count \<Longrightarrow> running (render_start True count turma names safe now now' s)"
  by (simp add: running_def render_start_fields length_init_players length_MISSIONS)


lemma position_div_mod:
  fixes c i k :: nat
  assumes "6 * c + i = k" and "i < 6"
  shows "c = k div 6" and "i = k mod 6"
  using assms by presburger+

lemma successes_from_start:
  assumes "1 \<le> n" and "length ts < 6 * n"
  shows "\<exists>g. successes ts (render_start True (int n) turma names safe t t' s0) = Inr g \<and>
           running g \<and> stage g = Game \<and> length (players g) = n \<and>
           current_player g = int (length ts div 6) \<and> mission_idx g = int (length ts mod 6)"
proof -
  let ?s = "render_start True (int n) turma names safe t t' s0"
  from assms(1) have run: "running ?s"
    by (simp add: render_start_running)
  have len: "length (players ?s) = n"
    by (simp add: render_start_fields length_init_players)
  from assms(2) have pos: "6 * nat (current_player ?s) + nat (mission_idx ?s) + length ts
      < 6 * length (players ?s)"
    by (simp add: render_start_fields length_init_players)
  from successes_position [OF run _ pos]
  obtain g where g: "successes ts ?s = Inr g" "running g" "stage g = Game"
    "length (players g) = length (players ?s)"
    "6 * nat (current_player g) + nat (mission_idx g) = length ts"
    by (auto simp add: render_start_fields)
  from g(2) have b: "0 \<le> current_player g" "0 \<le> mission_idx g" "nat (mission_idx g) < 6"
    by (auto simp add: running_def length_MISSIONS)
  from position_div_mod [OF g(5) b(3)] b
  have "current_player g = int (length ts div 6)" "mission_idx g = int (length ts mod 6)"
    by simp_all
  with g len show ?thesis by simp
qed

lemma successes_to_end:
  assumes "1 \<le> n" and "length ts = 6 * n"
  shows "\<exists>g. successes ts (render_start True (int n) turma names safe t t' s0) = Inr g \<and>
           stage g = End \<and> current_player g = int n - 1"
proof -
  let ?s = "render_start True (int n) turma names safe t t' s0"
  from assms(1) obtain k where n: "n = Suc k"
    by (cases n) simp_all
  from assms(2) n have ne: "ts \<noteq> []" by auto
  then have split: "butlast ts @ [last ts] = ts" by simp
  from assms(2) n have lb: "length (butlast ts) = 6 * k + 5" by simp
  with n have less: "length (butlast ts) < 6 * n" by simp
  from successes_from_start [OF assms(1) less, of turma names safe t t' s0]
  obtain g where g1: "successes (butlast ts) ?s = Inr g" and g2: "running g"
    and g4: "length (players g) = n"
    and g5: "current_player g = int (length (butlast ts) div 6)"
    and g6: "mission_idx g = int (length (butlast ts) mod 6)"
    by blast
  have dm: "(6 * k + 5) div 6 = k" "(6 * k + 5) mod 6 = 5"
    by simp_all
  from g5 g6 have last: "mission_idx g = 5" "current_player g = int k"
    unfolding lb dm by simp_all
  from g2 g4 have pc: "players_count g = int n"
    by (simp add: running_def)
  from last pc n have cond: "mission_idx g = 5 \<and> current_player g = players_count g - 1"
    by simp
  from success_fields [OF g2, of "fst (last ts)" "snd (last ts)"]
  obtain g' where s: "success (fst (last ts)) (snd (last ts)) g = Inr g'"
    and e: "mission_idx g = 5 \<and> current_player g = players_count g - 1 \<longrightarrow>
              stage g' = End \<and> current_player g' = current_player g \<and> mission_idx g' = mission_idx g"
    by blast
  from e cond have e': "stage g' = End" "current_player g' = current_player g"
    by simp_all
  have "successes (butlast ts @ [last ts]) ?s = Inr g'"
    by (simp add: successes_append g1 s)
  then have "successes ts ?s = Inr g'"
    by (simp only: split)
  with e' last n show ?thesis by simp
qed

text \<open>
  Claim C2. A call of \<^verbatim>\<open>register_mission_success\<close> (with the mission clock started, or the
  call raises) advances \<^verbatim>\<open>mission_idx\<close> by exactly 1 and keeps the turn while the mission is
  not the last of the catalog; on the last mission it moves the turn to the next player,
  sets \<^verbatim>\<open>mission_idx\<close> to 0 and drops the mission-context cache when the current player is not
  the final one, and sets the stage to \<^verbatim>\<open>end\<close> otherwise. So in a game of \<open>n\<close> players, after
  \<open>k < 6 * n\<close> successes the game is still on, it is the turn of player \<open>k div 6\<close> and the
  mission is \<open>k mod 6\<close>: the turn takes the values 0, 1, ..., \<open>n - 1\<close> in order, each for one
  pass through the six missions; the success number \<open>6 * n\<close> ends the game.
\<close>

theorem register_mission_success_round_robin:
  "(mission_started_at s = Some t0 \<longrightarrow>
      (\<exists>p' s'. register_mission_success p m now now' s = Inr (p', s') \<and>
         (mission_idx s < int (length MISSIONS) - 1 \<longrightarrow>
            mission_idx s' = mission_idx s + 1 \<and> current_player s' = current_player s \<and>
            stage s' = stage s) \<and>
         (int (length MISSIONS) - 1 \<le> mission_idx s \<and> 1 < players_count s \<and>
          current_player s < players_count s - 1 \<longrightarrow>
            current_player s' = current_player s + 1 \<and> mission_idx s' = 0 \<and>
            mission_ctx_idx s' = - 1 \<and> stage s' = stage s) \<and>
         (int (length MISSIONS) - 1 \<le> mission_idx s \<and>
          \<not> (1 < players_count s \<and> current_player s < players_count s - 1) \<longrightarrow>
            stage s' = End))) \<and>
   (1 \<le> n \<and> length ts < 6 * n \<longrightarrow>
      (\<exists>g. successes ts (render_start True (int n) turma names safe t t' s0) = Inr g \<and>
         stage g = Game \<and> current_player g = int (length ts div 6) \<and>
         mission_idx g = int (length ts mod 6))) \<and>
   (1 \<le> n \<and> length ts = 6 * n \<longrightarrow>
      (\<exists>g. successes ts (render_start True (int n) turma names safe t t' s0) = Inr g \<and>
         stage g = End \<and> current_player g = int n - 1))"
proof (intro conjI impI)
  assume "mission_started_at s = Some t0"
  from register_fields [OF this, of p m now now']
  obtain p' s' where r: "register_mission_success p m now now' s = Inr (p', s')"
    and f: "mission_idx s < 5 \<longrightarrow>
              mission_idx s' = mission_idx s + 1 \<and> current_player s' = current_player s \<and>
              stage s' = stage s \<and> mission_ctx_idx s' = mission_ctx_idx s"
      "5 \<le> mission_idx s \<and> 1 < players_count s \<and> current_player s < players_count s - 1 \<longrightarrow>
              current_player s' = current_player s + 1 \<and> mission_idx s' = 0 \<and>
              mission_ctx_idx s' = - 1 \<and> last_mission_idx s' = - 1 \<and> stage s' = stage s"
      "5 \<le> mission_idx s \<and> \<not> (1 < players_count s \<and> current_player s < players_count s - 1) \<longrightarrow>
              stage s' = End \<and> current_player s' = current_player s \<and>
              mission_idx s' = mission_idx s \<and> mission_ctx_idx s' = mission_ctx_idx s"
    by blast
  show "\<exists>p' s'. register_mission_success p m now now' s = Inr (p', s') \<and>
         (mission_idx s < int (length MISSIONS) - 1 \<longrightarrow>
            mission_idx s' = mission_idx s + 1 \<and> current_player s' = current_player s \<and>
            stage s' = stage s) \<and>
         (int (length MISSIONS) - 1 \<le> mission_idx s \<and> 1 < players_count s \<and>
          current_player s < players_count s - 1 \<longrightarrow>
            current_player s' = current_player s + 1 \<and> mission_idx s' = 0 \<and>
            mission_ctx_idx s' = - 1 \<and> stage s' = stage s) \<and>
         (int (length MISSIONS) - 1 \<le> mission_idx s \<and>
          \<not> (1 < players_count s \<and> current_player s < players_count s - 1) \<longrightarrow>
            stage s' = End)"
    apply (rule exI [of _ p'], rule exI [of _ s'])
    using r f apply (simp add: length_MISSIONS)
    done
next
  assume "1 \<le> n \<and> length ts < 6 * n"
  then have "1 \<le> n" "length ts < 6 * n" by simp_all
  from successes_from_start [OF this, of turma names safe t t' s0]
  show "\<exists>g. successes ts (render_start True (int n) turma names safe t t' s0) = Inr g \<and>
         stage g = Game \<and> current_player g = int (length ts div 6) \<and>
         mission_idx g = int (length ts mod 6)"
    by blast
next
  assume "1 \<le> n \<and> length ts = 6 * n"
  then have "1 \<le> n" "length ts = 6 * n" by simp_all
  from successes_to_end [OF this, of turma names safe t t' s0]
  show "\<exists>g. successes ts (render_start True (int n) turma names safe t t' s0) = Inr g \<and>
         stage g = End \<and> current_player g = int n - 1"
    by blast
qed


theorem register_mission_success_round_robin_witness:
  "mission_started_at (render_start True 2 [] [] True 0 0 init_state) = Some 0 \<and>
   (\<exists>p' s'. register_mission_success (players (render_start True 2 [] [] True 0 0 init_state) ! 0)
        (MISSIONS ! 0) 1 1 (render_start True 2 [] [] True 0 0 init_state) = Inr (p', s') \<and>
      mission_idx s' = 1 \<and> current_player s' = 0 \<and> stage s' = Game) \<and>
   (\<exists>g. successes [(1, 1), (2, 2), (3, 3), (4, 4), (5, 5), (6, 6), (7, 7)]
           (render_start True 2 [] [] True 0 0 init_state) = Inr g \<and>
      stage g = Game \<and> current_player g = 1 \<and> mission_idx g = 1) \<and>
   (\<exists>g. successes [(1, 1), (2, 2), (3, 3), (4, 4), (5, 5), (6, 6)]
           (render_start True 1 [] [] True 0 0 init_state) = Inr g \<and>
      stage g = End \<and> current_player g = 0)"
proof -
  let ?s = "render_start True 2 [] [] True 0 0 init_state"
  have h: "mission_started_at ?s = Some 0" "mission_idx ?s = 0" "current_player ?s = 0"
    "stage ?s = Game"
    by (simp_all add: render_start_fields)
  have a: "\<exists>p' s'. register_mission_success (players ?s ! 0) (MISSIONS ! 0) 1 1 ?s = Inr (p', s') \<and>
      mission_idx s' = 1 \<and> current_player s' = 0 \<and> stage s' = Game"
    using register_mission_success_round_robin
      [where s = ?s and ?t0.0 = 0 and p = "players ?s ! 0" and m = "MISSIONS ! 0" and now = 1
        and now' = 1] h
    by (simp add: length_MISSIONS)
  have b: "\<exists>g. successes [(1, 1), (2, 2), (3, 3), (4, 4), (5, 5), (6, 6), (7, 7)] ?s = Inr g \<and>
      stage g = Game \<and> current_player g = 1 \<and> mission_idx g = 1"
    using register_mission_success_round_robin
      [where n = 2 and ts = "[(1, 1), (2, 2), (3, 3), (4, 4), (5, 5), (6, 6), (7, 7)]"
        and turma = "[]" and names = "[]" and safe = True and t = 0 and t' = 0 and ?s0.0 = init_state]
    by simp
  have c: "\<exists>g. successes [(1, 1), (2, 2), (3, 3), (4, 4), (5, 5), (6, 6)]
           (render_start True 1 [] [] True 0 0 init_state) = Inr g \<and>
      stage g = End \<and> current_player g = 0"
    using register_mission_success_round_robin
      [where n = 1 and ts = "[(1, 1), (2, 2), (3, 3), (4, 4), (5, 5), (6, 6)]"
        and turma = "[]" and names = "[]" and safe = True and t = 0 and t' = 0 and ?s0.0 = init_state]
    by simp
  from h(1) a b c show ?thesis by blast
qed

text \<open>
  Claim C8. After the start of a game with at least one player, \<open>0 \<le> current_player <
  len(players)\<close> and \<open>0 \<le> mission_idx \<le> len(MISSIONS)\<close> hold; and every mission success
  (advance, rotation or finish) keeps them, in a session state whose \<^verbatim>\<open>players_count\<close> is the
  length of \<^verbatim>\<open>players\<close>, as the data model has it and as the start establishes. The state
  after the success is the one with the updated player stored back.
\<close>

theorem bounds_preserved:
  "(1 \<le> count \<longrightarrow>
      0 \<le> current_player (render_start True count turma names safe t t' s0) \<and>
      current_player (render_start True count turma names safe t t' s0)
        < int (length (players (render_start True count turma names safe t t' s0))) \<and>
      0 \<le> mission_idx (render_start True count turma names safe t t' s0) \<and>
      mission_idx (render_start True count turma names safe t t' s0) \<le> int (length MISSIONS) \<and>
      players_count (render_start True count turma names safe t t' s0)
        = int (length (players (render_start True count turma names safe t t' s0)))) \<and>
   (players_count s = int (length (players s)) \<and>
    0 \<le> current_player s \<and> current_player s < int (length (players s)) \<and>
    0 \<le> mission_idx s \<and> mission_idx s \<le> int (length MISSIONS) \<and>
    register_mission_success p m now now' s = Inr (p', s') \<longrightarrow>
      0 \<le> current_player (store_player k (p', s')) \<and>
      current_player (store_player k (p', s')) < int (length (players (store_player k (p', s')))) \<and>
      0 \<le> mission_idx (store_player k (p', s')) \<and>
      mission_idx (store_player k (p', s')) \<le> int (length MISSIONS) \<and>
      players_count (store_player k (p', s')) = int (length (players (store_player k (p', s')))))"
proof (rule conjI; rule impI)
  assume "1 \<le> count"
  then show "0 \<le> current_player (render_start True count turma names safe t t' s0) \<and>
      current_player (render_start True count turma names safe t t' s0)
        < int (length (players (render_start True count turma names safe t t' s0))) \<and>
      0 \<le> mission_idx (render_start True count turma names safe t t' s0) \<and>
      mission_idx (render_start True count turma names safe t t' s0) \<le> int (length MISSIONS) \<and>
      players_count (render_start True count turma names safe t t' s0)
        = int (length (players (render_start True count turma names safe t t' s0)))"
    by (simp add: render_start_fields length_init_players length_MISSIONS)
next
  assume a: "players_count s = int (length (players s)) \<and>
    0 \<le> current_player s \<and> current_player s < int (length (players s)) \<and>
    0 \<le> mission_idx s \<and> mission_idx s \<le> int (length MISSIONS) \<and>
    register_mission_success p m now now' s = Inr (p', s')"
  then obtain t0 where t0: "mission_started_at s = Some t0"
    by (cases "mission_started_at s") (simp_all add: register_mission_success_def)
  from register_fields [OF t0, of p m now now'] a
  have f: "players s' = players s" "players_count s' = players_count s"
      "mission_idx s < 5 \<longrightarrow>
         mission_idx s' = mission_idx s + 1 \<and> current_player s' = current_player s"
      "5 \<le> mission_idx s \<and> 1 < players_count s \<and> current_player s < players_count s - 1 \<longrightarrow>
         current_player s' = current_player s + 1 \<and> mission_idx s' = 0"
      "5 \<le> mission_idx s \<and> \<not> (1 < players_count s \<and> current_player s < players_count s - 1) \<longrightarrow>
         current_player s' = current_player s \<and> mission_idx s' = mission_idx s"
    by auto
  have "0 \<le> current_player s' \<and> current_player s' < int (length (players s')) \<and>
      0 \<le> mission_idx s' \<and> mission_idx s' \<le> 6 \<and> players_count s' = int (length (players s'))"
  proof (cases "mission_idx s < 5")
    case True
    with f a show ?thesis by (simp add: length_MISSIONS)
  next
    case False
    then have five: "5 \<le> mission_idx s" by simp
    show ?thesis
    proof (cases "1 < players_count s \<and> current_player s < players_count s - 1")
      case True
      with five f a show ?thesis by (simp add: length_MISSIONS)
    next
      case False
      with five f a show ?thesis by (simp add: length_MISSIONS)
    qed
  qed
  then show "0 \<le> current_player (store_player k (p', s')) \<and>
      current_player (store_player k (p', s')) < int (length (players (store_player k (p', s')))) \<and>
      0 \<le> mission_idx (store_player k (p', s')) \<and>
      mission_idx (store_player k (p', s')) \<le> int (length MISSIONS) \<and>
      players_count (store_player k (p', s')) = int (length (players (store_player k (p', s'))))"
    by (simp add: store_player_fields length_MISSIONS)
qed


theorem bounds_preserved_witness:
  "(1 :: int) \<le> 2 \<and>
   current_player (render_start True 2 [] [] True 0 0 init_state)
     < int (length (players (render_start True 2 [] [] True 0 0 init_state))) \<and>
   register_mission_success (players (render_start True 2 [] [] True 0 0 init_state) ! 0) (MISSIONS ! 0) 1 1
       (render_start True 2 [] [] True 0 0 init_state)
     = Inr (projr (register_mission_success (players (render_start True 2 [] [] True 0 0 init_state) ! 0)
              (MISSIONS ! 0) 1 1 (render_start True 2 [] [] True 0 0 init_state))) \<and>
   current_player (store_player 0
       (projr (register_mission_success (players (render_start True 2 [] [] True 0 0 init_state) ! 0)
              (MISSIONS ! 0) 1 1 (render_start True 2 [] [] True 0 0 init_state))))
     < int (length (players (store_player 0
       (projr (register_mission_success (players (render_start True 2 [] [] True 0 0 init_state) ! 0)
              (MISSIONS ! 0) 1 1 (render_start True 2 [] [] True 0 0 init_state)))))) \<and>
   mission_idx (store_player 0
       (projr (register_mission_success (players (render_start True 2 [] [] True 0 0 init_state) ! 0)
              (MISSIONS ! 0) 1 1 (render_start True 2 [] [] True 0 0 init_state))))
     \<le> int (length MISSIONS)"
proof -
  let ?s = "render_start True 2 [] [] True 0 0 init_state"
  let ?r = "register_mission_success (players ?s ! 0) (MISSIONS ! 0) 1 1 ?s"
  have h0: "(1 :: int) \<le> 2" by simp
  have st: "mission_started_at ?s = Some 0"
    by (simp add: render_start_fields)
  from register_fields [OF st, of "players ?s ! 0" "MISSIONS ! 0" 1 1]
  obtain p' s' where r: "?r = Inr (p', s')" by blast
  then have pr: "projr ?r = (p', s')" by simp
  from bounds_preserved [where count = 2 and turma = "[]" and names = "[]" and safe = True and t = 0
      and t' = 0 and ?s0.0 = init_state and s = ?s and p = "players ?s ! 0" and m = "MISSIONS ! 0"
      and now = 1 and now' = 1 and p' = p' and s' = s' and k = 0] h0 r
  have "current_player ?s < int (length (players ?s)) \<and>
      current_player (store_player 0 (p', s')) < int (length (players (store_player 0 (p', s')))) \<and>
      mission_idx (store_player 0 (p', s')) \<le> int (length MISSIONS)"
    by simp
  with h0 r show ?thesis
    unfolding pr by simp
qed

section \<open>Validation: attempts, errors and hints\<close>

lemma validate_players_update:
  "validate_mission_by_result m a b c (s\<lparr>players := ps\<rparr>) = validate_mission_by_result m a b c s"
  by (simp add: validate_mission_by_result_def)

lemma apply_simulation_effect_fields:
  "players (apply_simulation_effect combo s) = players s"
  "players_count (apply_simulation_effect combo s) = players_count s"
  "current_player (apply_simulation_effect combo s) = current_player s"
  "mission_idx (apply_simulation_effect combo s) = mission_idx s"
  "mission_started_at (apply_simulation_effect combo s) = mission_started_at s"
  "stage (apply_simulation_effect combo s) = stage s"
  by (simp_all add: apply_simulation_effect_def Let_def)


lemma register_then_store:
  assumes "mission_started_at s = Some t0" and "k < length (players s)"
    and "players x = (players s)[k := p1]" and "mission_started_at x = mission_started_at s"
    and "players_count x = players_count s" and "mission_idx x = mission_idx s"
    and "current_player x = current_player s" and "stage x = stage s"
  shows "\<exists>s' q. map_sum id (store_player k) (register_mission_success p1 m now now' x) = Inr s' \<and>
           players s' = (players s)[k := q] \<and>
           attempts q = attempts p1 \<and> hits q = hits p1 + 1 \<and> errors q = errors p1 \<and>
           players_count s' = players_count s \<and> mission_started_at s' = Some now' \<and>
           (mission_idx s < 5 \<longrightarrow>
              mission_idx s' = mission_idx s + 1 \<and> current_player s' = current_player s \<and>
              stage s' = stage s) \<and>
           (5 \<le> mission_idx s \<and> 1 < players_count s \<and> current_player s < players_count s - 1 \<longrightarrow>
              current_player s' = current_player s + 1 \<and> mission_idx s' = 0 \<and> stage s' = stage s) \<and>
           (5 \<le> mission_idx s \<and> \<not> (1 < players_count s \<and> current_player s < players_count s - 1) \<longrightarrow>
              stage s' = End \<and> current_player s' = current_player s \<and> mission_idx s' = mission_idx s)"
proof -
  from assms(1,4) have st: "mission_started_at x = Some t0" by simp
  from register_fields [OF st, of p1 m now now']
  obtain p' s' where r: "register_mission_success p1 m now now' x = Inr (p', s')"
    and f: "hits p' = hits p1 + 1" "attempts p' = attempts p1" "errors p' = errors p1"
      "players s' = players x" "players_count s' = players_count x" "mission_started_at s' = Some now'"
      "mission_idx x < 5 \<longrightarrow>
              mission_idx s' = mission_idx x + 1 \<and> current_player s' = current_player x \<and>
              stage s' = stage x \<and> mission_ctx_idx s' = mission_ctx_idx x"
      "5 \<le> mission_idx x \<and> 1 < players_count x \<and> current_player x < players_count x - 1 \<longrightarrow>
              current_player s' = current_player x + 1 \<and> mission_idx s' = 0 \<and>
              mission_ctx_idx s' = - 1 \<and> last_mission_idx s' = - 1 \<and> stage s' = stage x"
      "5 \<le> mission_idx x \<and> \<not> (1 < players_count x \<and> current_player x < players_count x - 1) \<longrightarrow>
              stage s' = End \<and> current_player s' = current_player x \<and>
              mission_idx s' = mission_idx x \<and> mission_ctx_idx s' = mission_ctx_idx x"
    by blast
  have pl: "players (store_player k (p', s')) = (players s)[k := p']"
    by (simp add: store_player_fields f(4) assms(3))
  show ?thesis
    apply (rule exI [of _ "store_player k (p', s')"], rule exI [of _ p'])
    using f assms(3,5-8) apply (simp add: r store_player_fields)
    done
qed


lemma render_game_validate_failed:
  assumes "task_type m \<noteq> py ''confirm''" and "task_type m \<noteq> py ''select_all''"
    and "task_type m \<noteq> py ''undo''"
    and "\<not> fst (validate_mission_by_result m (source_initial s) (editor_box s) (final_box s) s)"
  shows "render_game_validate m k expected now now' s =
     Inr (s\<lparr>players := (players s)[k := (players s ! k)
                \<lparr>attempts := attempts (players s ! k) + 1, errors := errors (players s ! k) + 1\<rparr>],
            feedback := py ''Ainda nao validou. '' @
              snd (validate_mission_by_result m (source_initial s) (editor_box s) (final_box s) s)\<rparr>)"
  using assms
  by (simp add: render_game_validate_def Let_def validate_players_update case_prod_beta)

lemma render_game_validate_passed:
  assumes "mission_started_at s = Some t0" and "k < length (players s)"
    and "task_type m = py ''confirm'' \<or> task_type m = py ''select_all'' \<or> task_type m = py ''undo'' \<or>
         fst (validate_mission_by_result m (source_initial s) (editor_box s) (final_box s) s)"
  shows "\<exists>s' q. render_game_validate m k expected now now' s = Inr s' \<and>
           players s' = (players s)[k := q] \<and>
           attempts q = attempts (players s ! k) + 1 \<and> hits q = hits (players s ! k) + 1 \<and>
           errors q = errors (players s ! k) \<and>
           players_count s' = players_count s \<and> mission_started_at s' = Some now' \<and>
           (mission_idx s < 5 \<longrightarrow>
              mission_idx s' = mission_idx s + 1 \<and> current_player s' = current_player s \<and>
              stage s' = stage s) \<and>
           (5 \<le> mission_idx s \<and> 1 < players_count s \<and> current_player s < players_count s - 1 \<longrightarrow>
              current_player s' = current_player s + 1 \<and> mission_idx s' = 0 \<and> stage s' = stage s) \<and>
           (5 \<le> mission_idx s \<and> \<not> (1 < players_count s \<and> current_player s < players_count s - 1) \<longrightarrow>
              stage s' = End \<and> current_player s' = current_player s \<and> mission_idx s' = mission_idx s)"
proof -
  define p1 where "p1 = (players s ! k)\<lparr>attempts := attempts (players s ! k) + 1\<rparr>"
  define s1 where "s1 = s\<lparr>players := (players s)[k := p1]\<rparr>"
  define x where "x = (if task_type m = py ''confirm'' then apply_simulation_effect expected s1 else s1)"
  have run: "render_game_validate m k expected now now' s =
      map_sum id (store_player k) (register_mission_success p1 m now now' x)"
    using assms(3)
    by (auto simp add: render_game_validate_def Let_def validate_players_update case_prod_beta
        p1_def s1_def x_def)
  have x: "players x = (players s)[k := p1]" "mission_started_at x = mission_started_at s"
    "players_count x = players_count s" "mission_idx x = mission_idx s"
    "current_player x = current_player s" "stage x = stage s"
    by (simp_all add: x_def s1_def apply_simulation_effect_fields)
  have p1: "attempts p1 = attempts (players s ! k) + 1" "hits p1 = hits (players s ! k)"
    "errors p1 = errors (players s ! k)"
    by (simp_all add: p1_def)
  from register_then_store [OF assms(1,2) x, of m now now']
  show ?thesis
    unfolding run p1 .
qed


lemma render_game_validate_not_started:
  assumes "mission_started_at s = None"
    and "task_type m = py ''confirm'' \<or> task_type m = py ''select_all'' \<or> task_type m = py ''undo'' \<or>
         fst (validate_mission_by_result m (source_initial s) (editor_box s) (final_box s) s)"
  shows "render_game_validate m k expected now now' s = Inl TypeError"
  using assms
  by (auto simp add: render_game_validate_def Let_def validate_players_update case_prod_beta
      register_mission_success_def apply_simulation_effect_fields)

lemma validate_hints:
  "task_type m = py ''copy'' \<Longrightarrow> snd (validate_mission_by_result m a b c s) =
     py ''Para validar, selecione na ORIGEM e pressione Ctrl+C.''"
  "task_type m = py ''paste'' \<Longrightarrow> snd (validate_mission_by_result m a b c s) =
     py ''Para validar, cole o texto da origem na CAIXA DE TRABALHO com Ctrl+V.''"
  "task_type m = py ''cut'' \<Longrightarrow> snd (validate_mission_by_result m a b c s) =
     py ''Para validar, use Ctrl+A e Ctrl+X na caixa de trabalho para esvaziar o texto.''"
  "task_type m = py ''paste_plain'' \<Longrightarrow> snd (validate_mission_by_result m a b c s) =
     py ''Para validar, copie da origem e cole sem formatacao na CAIXA FINAL com Ctrl+Shift+V.''"
  by (simp_all add: validate_mission_by_result_def Let_def py_eq_iff)

text \<open>
  Claim C6. The validation branch of \<^verbatim>\<open>render_game\<close>, for the player at position \<open>k\<close>. When
  a result-based validation fails (the task type is none of \<^verbatim>\<open>confirm\<close>, \<^verbatim>\<open>select_all\<close>, \<^verbatim>\<open>undo\<close>
  and the validator says no), the session state changes in two places only: the player's
  \<^verbatim>\<open>attempts\<close> and \<^verbatim>\<open>errors\<close> are each one more, and \<^verbatim>\<open>feedback\<close> is \<^verbatim>\<open>Ainda nao validou.\<close> followed
  by the validator's hint; so \<^verbatim>\<open>mission_idx\<close> is unchanged. Whatever the outcome of a validation
  call that returns, \<^verbatim>\<open>attempts\<close> is one more; \<^verbatim>\<open>errors\<close> is one more on a failure and unchanged
  on a success. The hint is the one of the task type.
\<close>

theorem validation_counters:
  "(task_type m \<notin> set [py ''confirm'', py ''select_all'', py ''undo''] \<and>
    \<not> fst (validate_mission_by_result m (source_initial s) (editor_box s) (final_box s) s) \<longrightarrow>
      render_game_validate m k expected now now' s =
        Inr (s\<lparr>players := (players s)[k := (players s ! k)
                   \<lparr>attempts := attempts (players s ! k) + 1, errors := errors (players s ! k) + 1\<rparr>],
               feedback := py ''Ainda nao validou. '' @
                 snd (validate_mission_by_result m (source_initial s) (editor_box s) (final_box s) s)\<rparr>)) \<and>
   (k < length (players s) \<and> render_game_validate m k expected now now' s = Inr s' \<longrightarrow>
      attempts (players s' ! k) = attempts (players s ! k) + 1 \<and>
      (if task_type m \<notin> set [py ''confirm'', py ''select_all'', py ''undo''] \<and>
          \<not> fst (validate_mission_by_result m (source_initial s) (editor_box s) (final_box s) s)
       then errors (players s' ! k) = errors (players s ! k) + 1 \<and>
            hits (players s' ! k) = hits (players s ! k) \<and> mission_idx s' = mission_idx s
       else errors (players s' ! k) = errors (players s ! k) \<and>
            hits (players s' ! k) = hits (players s ! k) + 1)) \<and>
   (task_type m = py ''copy'' \<longrightarrow> snd (validate_mission_by_result m a b c s) =
      py ''Para validar, selecione na ORIGEM e pressione Ctrl+C.'') \<and>
   (task_type m = py ''paste'' \<longrightarrow> snd (validate_mission_by_result m a b c s) =
      py ''Para validar, cole o texto da origem na CAIXA DE TRABALHO com Ctrl+V.'') \<and>
   (task_type m = py ''cut'' \<longrightarrow> snd (validate_mission_by_result m a b c s) =
      py ''Para validar, use Ctrl+A e Ctrl+X na caixa de trabalho para esvaziar o texto.'') \<and>
   (task_type m = py ''paste_plain'' \<longrightarrow> snd (validate_mission_by_result m a b c s) =
      py ''Para validar, copie da origem e cole sem formatacao na CAIXA FINAL com Ctrl+Shift+V.'')"
proof -
  let ?failed = "task_type m \<notin> set [py ''confirm'', py ''select_all'', py ''undo''] \<and>
    \<not> fst (validate_mission_by_result m (source_initial s) (editor_box s) (final_box s) s)"
  let ?s' = "s\<lparr>players := (players s)[k := (players s ! k)
                   \<lparr>attempts := attempts (players s ! k) + 1, errors := errors (players s ! k) + 1\<rparr>],
               feedback := py ''Ainda nao validou. '' @
                 snd (validate_mission_by_result m (source_initial s) (editor_box s) (final_box s) s)\<rparr>"
  have a: "?failed \<Longrightarrow> render_game_validate m k expected now now' s = Inr ?s'"
    using render_game_validate_failed [of m s k expected now now'] by simp
  have b: "attempts (players s' ! k) = attempts (players s ! k) + 1 \<and>
      (if ?failed
       then errors (players s' ! k) = errors (players s ! k) + 1 \<and>
            hits (players s' ! k) = hits (players s ! k) \<and> mission_idx s' = mission_idx s
       else errors (players s' ! k) = errors (players s ! k) \<and>
            hits (players s' ! k) = hits (players s ! k) + 1)"
    if k: "k < length (players s)" and r: "render_game_validate m k expected now now' s = Inr s'"
  proof (cases ?failed)
    case True
    from a [OF True] r have "s' = ?s'" by simp
    with True k show ?thesis by simp
  next
    case False
    then have passed: "task_type m = py ''confirm'' \<or> task_type m = py ''select_all'' \<or>
        task_type m = py ''undo'' \<or>
        fst (validate_mission_by_result m (source_initial s) (editor_box s) (final_box s) s)"
      by auto
    from r render_game_validate_not_started [OF _ passed, of k expected now now']
    obtain t0 where "mission_started_at s = Some t0"
      by (cases "mission_started_at s") auto
    from render_game_validate_passed [OF this k passed, of expected now now'] r
    obtain q where "players s' = (players s)[k := q]"
      "attempts q = attempts (players s ! k) + 1" "hits q = hits (players s ! k) + 1"
      "errors q = errors (players s ! k)"
      by auto
    with False k show ?thesis by simp
  qed
  from a b validate_hints [of m a b c s] show ?thesis
    by blast
qed


lemma validate_paste:
  "task_type m = py ''paste'' \<Longrightarrow>
     fst (validate_mission_by_result m a b c s) \<longleftrightarrow> strip b = strip (source_initial s)"
  by (simp add: validate_mission_by_result_def Let_def py_eq_iff)

theorem validation_counters_witness:
  "task_type (MISSIONS ! 1) \<notin> set [py ''confirm'', py ''select_all'', py ''undo''] \<and>
   \<not> fst (validate_mission_by_result (MISSIONS ! 1)
          (source_initial ((render_start True 2 [] [] True 0 0 init_state)\<lparr>source_initial := py ''abc''\<rparr>))
          (editor_box ((render_start True 2 [] [] True 0 0 init_state)\<lparr>source_initial := py ''abc''\<rparr>))
          (final_box ((render_start True 2 [] [] True 0 0 init_state)\<lparr>source_initial := py ''abc''\<rparr>))
          ((render_start True 2 [] [] True 0 0 init_state)\<lparr>source_initial := py ''abc''\<rparr>)) \<and>
   render_game_validate (MISSIONS ! 1) 0 (py ''Ctrl+V'') 1 1
        ((render_start True 2 [] [] True 0 0 init_state)\<lparr>source_initial := py ''abc''\<rparr>)
     = Inr ((render_start True 2 [] [] True 0 0 init_state)
         \<lparr>source_initial := py ''abc'',
          players := (init_players 2)[0 := (init_players 2 ! 0)\<lparr>attempts := 1, errors := 1\<rparr>],
          feedback := py ''Ainda nao validou. '' @
            py ''Para validar, cole o texto da origem na CAIXA DE TRABALHO com Ctrl+V.''\<rparr>)"
proof -
  let ?s = "(render_start True 2 [] [] True 0 0 init_state)\<lparr>source_initial := py ''abc''\<rparr>"
  have tt: "task_type (MISSIONS ! 1) = py ''paste''"
    by (simp add: MISSIONS_def)
  have h1: "task_type (MISSIONS ! 1) \<notin> set [py ''confirm'', py ''select_all'', py ''undo'']"
    unfolding tt by (simp add: py_eq_iff)
  have f: "source_initial ?s = py ''abc''" "editor_box ?s = []"
    by (simp_all add: render_start_def init_simulation_env_def)
  have ne: "strip [] \<noteq> strip (py ''abc'')"
    by (simp add: strip_def py_def is_space_def)
  have h2: "\<not> fst (validate_mission_by_result (MISSIONS ! 1) (source_initial ?s) (editor_box ?s)
      (final_box ?s) ?s)"
    unfolding validate_paste [OF tt] f using ne .
  note r = validation_counters [where m = "MISSIONS ! 1" and s = ?s and k = 0 and expected = "py ''Ctrl+V''"
      and now = 1 and now' = 1, THEN conjunct1, THEN mp, OF conjI [OF h1 h2],
      unfolded validate_hints(2) [OF tt]]
  have p0: "attempts (init_players 2 ! 0) = 0" "errors (init_players 2 ! 0) = 0"
    by (simp_all add: init_players_def upt_rec)
  have r': "render_game_validate (MISSIONS ! 1) 0 (py ''Ctrl+V'') 1 1 ?s
     = Inr ((render_start True 2 [] [] True 0 0 init_state)
         \<lparr>source_initial := py ''abc'',
          players := (init_players 2)[0 := (init_players 2 ! 0)\<lparr>attempts := 1, errors := 1\<rparr>],
          feedback := py ''Ainda nao validou. '' @
            py ''Para validar, cole o texto da origem na CAIXA DE TRABALHO com Ctrl+V.''\<rparr>)"
    unfolding r by (simp add: render_start_fields p0)
  from h1 h2 r' show ?thesis by (intro conjI)
qed

end
